theory Spec2Isabelle
  imports Complex_Main "HOL-Library.AList" "HOL-Library.Sublist"
begin

section \<open>Strings\<close>

text \<open>
  Python strings are modelled as \<^typ>\<open>string\<close>: a character is a code point below 256.
  On that range \<open>isspace\<close> is \<^verbatim>\<open>str.isspace\<close> (TAB..CR, FS..US, the space, NEL and the
  no-break space), \<open>isdigit\<close> is \<^verbatim>\<open>str.isdigit\<close> (the ten digits and the superscripts
  one, two and three), \<open>strip\<close> is \<^verbatim>\<open>str.strip()\<close> with no argument, and \<open>py_lower\<close> is
  \<^verbatim>\<open>str.lower()\<close>. \<open>py_upper\<close> is \<^verbatim>\<open>str.upper()\<close>, which turns the sharp s into two
  letters; the micro sign and the y with diaeresis, whose capitals lie beyond the range,
  are left as they are. A string is truthy iff it is not empty.
\<close>

definition isspace :: "char \<Rightarrow> bool" where
  "isspace c = (of_char c \<in> set [9, 10, 11, 12, 13, 28, 29, 30, 31, 32, 133, 160 :: nat])"

definition isdigit :: "char \<Rightarrow> bool" where
  "isdigit c =
     ((48 \<le> (of_char c :: nat) \<and> (of_char c :: nat) \<le> 57) \<or>
      of_char c \<in> set [178, 179, 185 :: nat])"

definition lower_char :: "char \<Rightarrow> char" where
  "lower_char c =
     (if (65 \<le> (of_char c :: nat) \<and> (of_char c :: nat) \<le> 90) \<or>
         (192 \<le> (of_char c :: nat) \<and> (of_char c :: nat) \<le> 222 \<and> (of_char c :: nat) \<noteq> 215)
      then char_of (of_char c + 32 :: nat) else c)"

definition upper_chars :: "char \<Rightarrow> string" where
  "upper_chars c =
     (if (97 \<le> (of_char c :: nat) \<and> (of_char c :: nat) \<le> 122) \<or>
         (224 \<le> (of_char c :: nat) \<and> (of_char c :: nat) \<le> 254 \<and> (of_char c :: nat) \<noteq> 247)
      then [char_of (of_char c - 32 :: nat)]
      else if (of_char c :: nat) = 223 then ''SS'' else [c])"

definition py_lower :: "string \<Rightarrow> string" where
  "py_lower s = map lower_char s"

definition py_upper :: "string \<Rightarrow> string" where
  "py_upper s = concat (map upper_chars s)"

definition lstrip :: "string \<Rightarrow> string" where
  "lstrip s = dropWhile isspace s"

definition rstrip :: "string \<Rightarrow> string" where
  "rstrip s = rev (dropWhile isspace (rev s))"

definition strip :: "string \<Rightarrow> string" where
  "strip s = rstrip (lstrip s)"

text \<open>\<^verbatim>\<open>needle in hay\<close> on strings: \<open>needle\<close> occurs as a contiguous piece of \<open>hay\<close>.\<close>

fun py_in :: "string \<Rightarrow> string \<Rightarrow> bool" where
  "py_in needle [] = (needle = [])"
| "py_in needle (c # cs) = (prefix needle (c # cs) \<or> py_in needle cs)"

text \<open>\<^verbatim>\<open>sep.join(parts)\<close>.\<close>

fun py_join :: "string \<Rightarrow> string list \<Rightarrow> string" where
  "py_join sep [] = []"
| "py_join sep [p] = p"
| "py_join sep (p # q # ps) = p @ sep @ py_join sep (q # ps)"

text \<open>
  \<^verbatim>\<open>s.replace(old, new)\<close> for a non-empty \<open>old\<close>: every occurrence, left to right, without
  overlap.
\<close>

function py_replace :: "string \<Rightarrow> string \<Rightarrow> string \<Rightarrow> string" where
  "py_replace old new s =
     (if old = [] \<or> s = [] then s
      else if prefix old s then new @ py_replace old new (drop (length old) s)
      else hd s # py_replace old new (tl s))"
  by pat_completeness auto
termination
  by (relation "measure (\<lambda>(old, new, s). length s)") auto

declare py_replace.simps [simp del]

text \<open>\<^verbatim>\<open>filter(None, parts)\<close> over optional strings: the truthy ones.\<close>

definition filter_truthy :: "string option list \<Rightarrow> string list" where
  "filter_truthy parts = concat (map (\<lambda>p. case p of None \<Rightarrow> [] | Some s \<Rightarrow> if s = [] then [] else [s]) parts)"

text \<open>\<^verbatim>\<open>a or b\<close> on optional strings: \<open>a\<close> when it is truthy, else \<open>b\<close>.\<close>

definition py_or :: "string option \<Rightarrow> string option \<Rightarrow> string option" where
  "py_or a b = (case a of None \<Rightarrow> b | Some s \<Rightarrow> if s = [] then b else a)"

definition truthy :: "string option \<Rightarrow> bool" where
  "truthy a = (case a of None \<Rightarrow> False | Some s \<Rightarrow> s \<noteq> [])"

section \<open>Exceptions (core/exceptions.py and the libraries' classes the code names)\<close>

text \<open>
  \<open>exn\<close>: the classes deriving from \<^verbatim>\<open>Exception\<close>, each carrying what \<^verbatim>\<open>str(e)\<close> shows.
  \<open>ClientConnectionError\<close> and \<open>ClientResponseError\<close> (with the status) are the two families
  below \<^verbatim>\<open>aiohttp.ClientError\<close>; \<open>RateLimitError\<close> derives from \<open>CrawlerError\<close>; \<open>RetryError\<close> is
  what the retry decorator raises, from the last attempt's exception, once it gives up.
  The texts of \<open>ClientResponseError\<close> and \<open>RetryError\<close> are built by the libraries, and are
  taken as they come.
\<close>

datatype exn =
    CrawlerError string
  | RateLimitError string
  | DataValidationError string
  | ClientConnectionError string
  | ClientResponseError nat string
  | RetryError exn string
  | AttributeError string
  | OtherException string

fun py_str :: "exn \<Rightarrow> string" where
  "py_str (CrawlerError m) = m"
| "py_str (RateLimitError m) = m"
| "py_str (DataValidationError m) = m"
| "py_str (ClientConnectionError m) = m"
| "py_str (ClientResponseError st m) = m"
| "py_str (RetryError e m) = m"
| "py_str (AttributeError m) = m"
| "py_str (OtherException m) = m"

text \<open>
  What can be raised where \<^verbatim>\<open>crawl\<close> awaits: an instance of \<^verbatim>\<open>Exception\<close>, or one of the
  classes that derive from \<^verbatim>\<open>BaseException\<close> only, which a handler \<^verbatim>\<open>except Exception\<close>
  does not catch (a cancellation, an interrupt from the keyboard, an exit).
\<close>

datatype interrupt = CancelledError | KeyboardInterrupt | SystemExit

datatype py_raise = Exc exn | NonExc interrupt

section \<open>Canonical model (core/models.py)\<close>

datatype EntityType = PERSON | ENTITY | VESSEL | AIRCRAFT | ORGANIZATION | UNKNOWN

datatype IdentifierType =
  PASSPORT | NATIONAL_ID | TAX_ID | REGISTRATION_NUMBER | IMO_NUMBER | CALL_SIGN | SWIFT_BIC
  | OTHER_ID

datatype SanctionStatus = ACTIVE | INACTIVE | DELISTED | PENDING

datatype AddressType = RESIDENCE | BUSINESS | BIRTH_PLACE | REGISTRATION | OTHER_ADDRESS

record Address =
  address_type :: AddressType
  street :: "string option"
  city :: "string option"
  state_province :: "string option"
  postal_code :: "string option"
  country :: "string option"
  full_address :: "string option"

record Identifier =
  identifier_type :: IdentifierType
  id_value :: string
  issuing_country :: "string option"

record SanctionProgram =
  program_name :: string
  authority :: string
  program_type :: string
  description :: "string option"
  legal_basis :: "string option"

text \<open>
  \<open>SanctionEntity\<close>: the field \<^verbatim>\<open>id\<close> is \<open>entity_id\<close> here. The score is a decimal number
  (\<^typ>\<open>rat\<close>). Dates, references, nationality, citizenship, occupation, position and the
  open \<^verbatim>\<open>additional_data\<close> mapping are not part of the model.
\<close>

record SanctionEntity =
  entity_id :: string
  name :: string
  alternative_names :: "string list"
  entity_type :: EntityType
  source :: string
  source_id :: "string option"
  sanction_status :: SanctionStatus
  sanctions_programs :: "SanctionProgram list"
  addresses :: "Address list"
  identifiers :: "Identifier list"
  data_quality_score :: "rat option"

record CrawlMetadata =
  crawl_duration_seconds :: rat
  start_time :: int
  end_time :: int

record CrawlResult =
  result_source :: string
  entities :: "SanctionEntity list"
  crawl_timestamp :: int
  total_entities :: int
  success_count :: int
  error_count :: int
  errors :: "string list"
  metadata :: CrawlMetadata

record CrawlerConfig =
  config_source :: string
  base_url :: string
  rate_limit_seconds :: rat
  max_retries :: int
  timeout_seconds :: int
  user_agent :: string
  headers :: "(string \<times> string) list"
  verify_ssl :: bool

section \<open>The base crawler (core/base.py)\<close>

record ClientSession =
  session_timeout :: int
  session_verify_ssl :: bool
  session_headers :: "(string \<times> string) list"

text \<open>The crawler object: \<^verbatim>\<open>self.config\<close>, \<^verbatim>\<open>self.session\<close> (\<open>None\<close> when there is none).\<close>

record BaseCrawler =
  config :: CrawlerConfig
  session :: "ClientSession option"

text \<open>
  \<^verbatim>\<open>_create_session\<close>: builds the headers \<^verbatim>\<open>{'User-Agent': ..., **config.headers}\<close> and
  stores a new session. The first argument is what constructing the client raises, if it
  does.
\<close>

definition create_session :: "py_raise option \<Rightarrow> BaseCrawler \<Rightarrow> py_raise + BaseCrawler" where
  "create_session failure c =
     (case failure of
        Some e \<Rightarrow> Inl e
      | None \<Rightarrow>
          Inr (c\<lparr>session := Some
            \<lparr>session_timeout = timeout_seconds (config c),
             session_verify_ssl = verify_ssl (config c),
             session_headers =
               foldl (\<lambda>d (k, v). AList.update k v d)
                 [(''User-Agent'', user_agent (config c))] (headers (config c))\<rparr>\<rparr>))"

text \<open>\<^verbatim>\<open>_close_session\<close>: closes the session if there is one and forgets it.\<close>

definition close_session :: "BaseCrawler \<Rightarrow> BaseCrawler" where
  "close_session c = (if session c \<noteq> None then c\<lparr>session := None\<rparr> else c)"

text \<open>\<^verbatim>\<open>__aenter__\<close> and \<^verbatim>\<open>__aexit__\<close>, the two ends of \<^verbatim>\<open>async with\<close>.\<close>

definition aenter :: "py_raise option \<Rightarrow> BaseCrawler \<Rightarrow> py_raise + BaseCrawler" where
  "aenter failure c = create_session failure c"

definition aexit :: "BaseCrawler \<Rightarrow> BaseCrawler" where
  "aexit c = close_session c"

text \<open>
  \<^verbatim>\<open>_validate_entity\<close>: the three checks raise \<open>DataValidationError\<close> inside a \<^verbatim>\<open>try\<close>
  (\<open>validate_checks\<close>); the handler \<^verbatim>\<open>except Exception\<close> logs and returns \<open>False\<close>. The outcome
  is \<open>Inr\<close> of the returned boolean, or \<open>Inl\<close> of an exception leaving the method.
\<close>

definition validate_checks :: "SanctionEntity \<Rightarrow> exn + bool" where
  "validate_checks e =
     (if name e = [] \<or> strip (name e) = [] then Inl (DataValidationError ''Entity name is required'')
      else if entity_id e = [] \<or> strip (entity_id e) = []
        then Inl (DataValidationError ''Entity ID is required'')
      else if source e = [] then Inl (DataValidationError ''Entity source is required'')
      else Inr True)"

definition validate_entity :: "SanctionEntity \<Rightarrow> exn + bool" where
  "validate_entity e = (case validate_checks e of Inl ex \<Rightarrow> Inr False | Inr b \<Rightarrow> Inr b)"

text \<open>
  What \<^verbatim>\<open>_fetch_data\<close> hands over: a list of raw records, or one payload that is not a list.
\<close>

datatype 'r raw_data = RawList "'r list" | RawSingle 'r

text \<open>
  One run of the asynchronous generator \<^verbatim>\<open>_process_data\<close>: the entities it yields in
  order, the warnings it logs, and what it ends with when it does not end normally.
\<close>

record gen_run =
  yielded :: "SanctionEntity list"
  warnings :: "string list"
  raised :: "py_raise option"

text \<open>
  The loop of \<^verbatim>\<open>_process_data\<close> over a list: each item is parsed inside its own
  \<^verbatim>\<open>try\<close>; a parse exception is logged as a warning and the loop goes on. A parser is
  synchronous code of the repository: what it raises is an instance of \<^verbatim>\<open>Exception\<close>.
\<close>

fun process_items ::
  "('r \<Rightarrow> exn + SanctionEntity) \<Rightarrow> 'r list \<Rightarrow> SanctionEntity list \<Rightarrow> string list
     \<Rightarrow> SanctionEntity list \<times> string list" where
  "process_items parse_entity [] ys ws = (ys, ws)"
| "process_items parse_entity (item # items) ys ws =
     (case parse_entity item of
        Inr entity \<Rightarrow> process_items parse_entity items (ys @ [entity]) ws
      | Inl e \<Rightarrow> process_items parse_entity items ys (ws @ [py_str e]))"

definition process_data :: "('r \<Rightarrow> exn + SanctionEntity) \<Rightarrow> 'r raw_data \<Rightarrow> gen_run" where
  "process_data parse_entity raw =
     (case raw of
        RawList items \<Rightarrow>
          (let (ys, ws) = process_items parse_entity items [] []
           in \<lparr>yielded = ys, warnings = ws, raised = None\<rparr>)
      | RawSingle item \<Rightarrow>
          (case parse_entity item of
             Inr entity \<Rightarrow> \<lparr>yielded = [entity], warnings = [], raised = None\<rparr>
           | Inl e \<Rightarrow> \<lparr>yielded = [], warnings = [py_str e], raised = None\<rparr>))"

text \<open>The two messages \<^verbatim>\<open>crawl\<close> writes into \<open>errors\<close>.\<close>

definition validation_failed_msg :: "SanctionEntity \<Rightarrow> string" where
  "validation_failed_msg entity = ''Validation failed for entity: '' @ entity_id entity"

definition crawl_failed_msg :: "BaseCrawler \<Rightarrow> exn \<Rightarrow> string" where
  "crawl_failed_msg c e = ''Crawl failed for '' @ config_source (config c) @ '': '' @ py_str e"

text \<open>
  The \<^verbatim>\<open>async for\<close> of \<^verbatim>\<open>crawl\<close> over the yielded entities: a valid entity is appended to
  \<open>entities\<close>, an invalid one leaves a line in \<open>errors\<close>; an exception of the validator would
  leave the loop.
\<close>

fun collect ::
  "SanctionEntity list \<Rightarrow> SanctionEntity list \<Rightarrow> string list
     \<Rightarrow> SanctionEntity list \<times> string list \<times> exn option" where
  "collect [] ents errs = (ents, errs, None)"
| "collect (entity # rest) ents errs =
     (case validate_entity entity of
        Inl e \<Rightarrow> (ents, errs, Some e)
      | Inr ok \<Rightarrow>
          if ok then collect rest (ents @ [entity]) errs
          else collect rest ents (errs @ [validation_failed_msg entity]))"

text \<open>
  The \<^verbatim>\<open>try\<close> block of \<^verbatim>\<open>crawl\<close>. It returns the crawler as the block leaves it, the two
  accumulators, and what left the block, if something was raised. \<open>failure\<close> is what
  creating the session raises, if it does; \<open>fetched\<close> is how \<^verbatim>\<open>_fetch_data\<close> ends; \<open>process\<close>
  is the generator (\<open>process_data\<close> unless a subclass overrides it). What the generator
  ends with comes after the entities it yielded.
\<close>

definition crawl_try ::
  "py_raise option \<Rightarrow> (py_raise + 'r raw_data) \<Rightarrow> ('r raw_data \<Rightarrow> gen_run) \<Rightarrow> BaseCrawler
     \<Rightarrow> BaseCrawler \<times> SanctionEntity list \<times> string list \<times> py_raise option" where
  "crawl_try failure fetched process c =
     (case (if session c = None then create_session failure c else Inr c) of
        Inl x \<Rightarrow> (c, [], [], Some x)
      | Inr c1 \<Rightarrow>
          (case fetched of
             Inl x \<Rightarrow> (c1, [], [], Some x)
           | Inr raw \<Rightarrow>
               (let g = process raw; (ents, errs, ex) = collect (yielded g) [] []
                in (c1, ents, errs, (case ex of Some e \<Rightarrow> Some (Exc e) | None \<Rightarrow> raised g)))))"

text \<open>
  The handler \<^verbatim>\<open>except Exception as e\<close> of \<^verbatim>\<open>crawl\<close>: an instance of \<^verbatim>\<open>Exception\<close> is caught
  and its message appended to \<open>errors\<close>; anything else stays in flight. It returns the
  error list and what is still in flight.
\<close>

definition crawl_except ::
  "BaseCrawler \<Rightarrow> string list \<Rightarrow> py_raise option \<Rightarrow> string list \<times> py_raise option" where
  "crawl_except c errs ex =
     (case ex of
        None \<Rightarrow> (errs, None)
      | Some (Exc e) \<Rightarrow> (errs @ [crawl_failed_msg c e], None)
      | Some (NonExc b) \<Rightarrow> (errs, Some (NonExc b)))"

text \<open>
  A \<^verbatim>\<open>return\<close> inside a \<^verbatim>\<open>finally\<close> block: the value is returned, and what was in flight is
  discarded.
\<close>

definition finally_return :: "py_raise option \<Rightarrow> 'a \<Rightarrow> py_raise + 'a" where
  "finally_return in_flight v = Inr v"

text \<open>
  \<^verbatim>\<open>crawl\<close>: the \<^verbatim>\<open>try\<close> block, the handler, and the \<^verbatim>\<open>finally\<close> block that builds the
  result and returns it. \<open>t0\<close> and \<open>t1\<close> are the two clock readings (microseconds). The
  outcome is \<open>Inr\<close> of the result, or \<open>Inl\<close> of what leaves \<open>crawl\<close>; the second component is
  the crawler afterwards.
\<close>

definition crawl ::
  "py_raise option \<Rightarrow> (py_raise + 'r raw_data) \<Rightarrow> ('r raw_data \<Rightarrow> gen_run) \<Rightarrow> int \<Rightarrow> int
     \<Rightarrow> BaseCrawler \<Rightarrow> (py_raise + CrawlResult) \<times> BaseCrawler" where
  "crawl failure fetched process t0 t1 c =
     (let (c1, ents, errs0, ex) = crawl_try failure fetched process c;
          (errs, in_flight) = crawl_except c errs0 ex;
          result =
            \<lparr>result_source = config_source (config c),
             entities = ents,
             crawl_timestamp = t0,
             total_entities = int (length ents),
             success_count = int (length ents),
             error_count = int (length errs),
             errors = errs,
             metadata =
               \<lparr>crawl_duration_seconds = of_int (t1 - t0) / 1000000,
                start_time = t0, end_time = t1\<rparr>\<rparr>
      in (finally_return in_flight result, c1))"

text \<open>
  The way every caller in the repository runs a crawl:
  \<^verbatim>\<open>async with crawler_class(config) as crawler: result = await crawler.crawl()\<close>.
  What \<^verbatim>\<open>__aenter__\<close> raises leaves the statement before the body; otherwise
  \<^verbatim>\<open>__aexit__\<close> runs when the body is left, however it is left.
\<close>

definition crawl_scoped ::
  "py_raise option \<Rightarrow> py_raise option \<Rightarrow> (py_raise + 'r raw_data) \<Rightarrow> ('r raw_data \<Rightarrow> gen_run)
     \<Rightarrow> int \<Rightarrow> int \<Rightarrow> BaseCrawler \<Rightarrow> (py_raise + CrawlResult) \<times> BaseCrawler" where
  "crawl_scoped enter_failure failure fetched process t0 t1 c =
     (case aenter enter_failure c of
        Inl x \<Rightarrow> (Inl x, c)
      | Inr c1 \<Rightarrow>
          (let (r, c2) = crawl failure fetched process t0 t1 c1 in (r, aexit c2)))"

section \<open>The request with its retry policy (core/base.py)\<close>

text \<open>
  A response of the client library: its status code, and the text of the error that
  \<^verbatim>\<open>raise_for_status()\<close> builds from it (the library puts the status, the reason and the
  URL there).
\<close>

record ClientResponse =
  status :: nat
  error_text :: string

text \<open>
  One call of the body of \<^verbatim>\<open>_make_request\<close>. \<open>got\<close> is how \<^verbatim>\<open>session.get\<close> ends: an exception,
  or a response. A status of 400 or more goes to \<^verbatim>\<open>response.raise_for_status()\<close>, which
  raises the client library's \<open>ClientResponseError\<close>; the handler
  \<^verbatim>\<open>except aiohttp.ClientError\<close> logs and raises the same exception again. The rate limiter
  before the call only waits, and is left out.
\<close>

definition raise_for_status :: "ClientResponse \<Rightarrow> exn + ClientResponse" where
  "raise_for_status response =
     (if 400 \<le> status response
      then Inl (ClientResponseError (status response) (error_text response))
      else Inr response)"

definition make_request_once ::
  "BaseCrawler \<Rightarrow> string \<Rightarrow> (exn + ClientResponse) \<Rightarrow> exn + ClientResponse" where
  "make_request_once c url got =
     (if session c = None
      then Inl (CrawlerError ''Session not initialized. Use async context manager.'')
      else
        (case got of
           Inl e \<Rightarrow> Inl e
         | Inr response \<Rightarrow>
             if status response = 429
             then Inl (RateLimitError (''Rate limit exceeded for '' @ url))
             else if 400 \<le> status response then raise_for_status response
             else Inr response))"

text \<open>
  The decorator's arguments. \<^verbatim>\<open>retry_if_exception_type((aiohttp.ClientError, RateLimitError))\<close>
  is an instance test, \<^verbatim>\<open>stop_after_attempt(3)\<close> stops once the attempt number reaches 3, and
  \<^verbatim>\<open>wait_exponential(multiplier=1, min=4, max=10)\<close> waits
  \<open>max (max 0 min) (min (multiplier * 2 ^ (attempt - 1)) max)\<close> seconds after an attempt.
\<close>

fun is_ClientError :: "exn \<Rightarrow> bool" where
  "is_ClientError (ClientConnectionError m) = True"
| "is_ClientError (ClientResponseError st m) = True"
| "is_ClientError e = False"

fun is_RateLimitError :: "exn \<Rightarrow> bool" where
  "is_RateLimitError (RateLimitError m) = True"
| "is_RateLimitError e = False"

definition retry_if_exception_type :: "exn \<Rightarrow> bool" where
  "retry_if_exception_type e = (is_ClientError e \<or> is_RateLimitError e)"

definition stop_after_attempt :: "nat \<Rightarrow> nat \<Rightarrow> bool" where
  "stop_after_attempt max_attempt_number attempt_number = (max_attempt_number \<le> attempt_number)"

definition wait_exponential :: "nat \<Rightarrow> nat \<Rightarrow> nat \<Rightarrow> nat \<Rightarrow> nat" where
  "wait_exponential multiplier wmin wmax attempt_number =
     max (max 0 wmin) (min (multiplier * 2 ^ (attempt_number - 1)) wmax)"

text \<open>
  What a decorated call leaves behind: its outcome, the number of attempts made, and the
  waits between them.
\<close>

record 'a retried =
  outcome :: "exn + 'a"
  attempts :: nat
  waits :: "nat list"

text \<open>
  The decorator's loop, from attempt \<open>n\<close> on; \<open>attempt k\<close> is the \<open>k\<close>-th call of the decorated
  function. A result is returned; an exception the predicate rejects is raised as it is; a
  retryable one is retried after the wait, unless the stop condition holds, when
  \<open>RetryError\<close> is raised from it. \<open>retry_text k\<close> is the text the library gives the
  \<open>RetryError\<close> of attempt \<open>k\<close> (it shows the attempt's future).
\<close>

function retry_loop ::
  "nat \<Rightarrow> nat \<Rightarrow> (nat \<Rightarrow> string) \<Rightarrow> (nat \<Rightarrow> exn + 'a) \<Rightarrow> nat list \<Rightarrow> 'a retried" where
  "retry_loop max_attempts n retry_text attempt ws =
     (case attempt n of
        Inr r \<Rightarrow> \<lparr>outcome = Inr r, attempts = n, waits = ws\<rparr>
      | Inl e \<Rightarrow>
          if \<not> retry_if_exception_type e then \<lparr>outcome = Inl e, attempts = n, waits = ws\<rparr>
          else if stop_after_attempt max_attempts n
            then \<lparr>outcome = Inl (RetryError e (retry_text n)), attempts = n, waits = ws\<rparr>
          else retry_loop max_attempts (Suc n) retry_text attempt
                 (ws @ [wait_exponential 1 4 10 n]))"
  by pat_completeness auto
termination
  by (relation "measure (\<lambda>(m, n, t, a, ws). m - n)") (auto simp: stop_after_attempt_def)

declare retry_loop.simps [simp del]

text \<open>
  \<^verbatim>\<open>_make_request\<close> as callers see it; \<open>transport k\<close> is how \<^verbatim>\<open>session.get\<close> ends at the
  \<open>k\<close>-th attempt.
\<close>

definition make_request ::
  "BaseCrawler \<Rightarrow> string \<Rightarrow> (nat \<Rightarrow> string) \<Rightarrow> (nat \<Rightarrow> exn + ClientResponse)
     \<Rightarrow> ClientResponse retried" where
  "make_request c url retry_text transport =
     retry_loop 3 1 retry_text (\<lambda>k. make_request_once c url (transport k)) []"

section \<open>Post-processing (processors/deduplicator.py, processors/enricher.py)\<close>

definition dedup_key :: "SanctionEntity \<Rightarrow> string" where
  "dedup_key e = source e @ '':'' @ py_lower (name e)"

text \<open>The loop of \<^verbatim>\<open>deduplicate_entities\<close>, with its dictionary \<open>seen\<close> and its list \<open>result\<close>.\<close>

fun dedup_loop ::
  "SanctionEntity list \<Rightarrow> (string \<rightharpoonup> SanctionEntity) \<Rightarrow> SanctionEntity list
     \<Rightarrow> SanctionEntity list" where
  "dedup_loop [] seen result = result"
| "dedup_loop (e # es) seen result =
     (if seen (dedup_key e) = None
      then dedup_loop es (seen(dedup_key e \<mapsto> e)) (result @ [e])
      else dedup_loop es seen result)"

definition deduplicate_entities :: "SanctionEntity list \<Rightarrow> SanctionEntity list" where
  "deduplicate_entities es = dedup_loop es Map.empty []"

definition add_sanction_program ::
  "string \<Rightarrow> string \<Rightarrow> string \<Rightarrow> SanctionEntity \<Rightarrow> SanctionEntity" where
  "add_sanction_program pname pauthority ptype e =
     e\<lparr>sanctions_programs := sanctions_programs e @
        [\<lparr>program_name = pname, authority = pauthority, program_type = ptype,
          description = None, legal_basis = None\<rparr>]\<rparr>"

text \<open>
  \<^verbatim>\<open>round(x, 2)\<close> on decimal numbers: the nearest multiple of 1/100, a tie going to the even
  one.
\<close>

definition py_round2 :: "rat \<Rightarrow> rat" where
  "py_round2 x =
     (let y = x * 100; f = \<lfloor>y\<rfloor>; d = y - of_int f
      in of_int (if d < 1 / 2 then f else if 1 / 2 < d then f + 1
                 else if even f then f else f + 1) / 100)"

text \<open>The body of the loop of \<^verbatim>\<open>enrich_entities\<close>, for one entity.\<close>

definition enrich_entity :: "SanctionEntity \<Rightarrow> SanctionEntity" where
  "enrich_entity e =
     (let e1 = (if sanctions_programs e = []
                then add_sanction_program ''Unknown Program'' (py_upper (source e)) ''general'' e
                else e);
          score0 = (0 :: rat);
          score1 = score0 + (if addresses e1 \<noteq> [] then 4 / 10 else 0);
          score2 = score1 + (if identifiers e1 \<noteq> [] then 4 / 10 else 0);
          score3 = score2 + (if alternative_names e1 \<noteq> [] then 2 / 10 else 0)
      in e1\<lparr>data_quality_score := Some (py_round2 (min score3 1))\<rparr>)"

definition enrich_entities :: "SanctionEntity list \<Rightarrow> SanctionEntity list" where
  "enrich_entities es = map enrich_entity es"

section \<open>Date parsing (the four \<^verbatim>\<open>_parse_date\<close> methods)\<close>

text \<open>
  \<^verbatim>\<open>datetime.strptime\<close> for the directives the four parsers use. The format is turned into
  a pattern: \<^verbatim>\<open>%Y\<close> is four digits; \<^verbatim>\<open>%m\<close> is \<^verbatim>\<open>1[0-2]|0[1-9]|[1-9]\<close>; \<^verbatim>\<open>%d\<close> is
  \<^verbatim>\<open>3[0-1]|[1-2]\d|0[1-9]|[1-9]| [1-9]\<close>; \<^verbatim>\<open>%b\<close> is a month abbreviation; a run of whitespace
  is one or more whitespace characters; any other character stands for itself. Letters
  match without regard to case. A stray \<^verbatim>\<open>%\<close>, or a directive other than these and
  \<^verbatim>\<open>%%\<close>, is outside the model and counts as a \<open>ValueError\<close>.
\<close>

datatype directive = DirY | Dirm | Dird | Dirb | DirWS | DirLit char | DirBad

definition directive_of :: "char \<Rightarrow> directive" where
  "directive_of d =
     (if d = CHR ''Y'' then DirY else if d = CHR ''m'' then Dirm else if d = CHR ''d'' then Dird
      else if d = CHR ''b'' then Dirb else if d = CHR ''%'' then DirLit CHR ''%'' else DirBad)"

function parse_format :: "string \<Rightarrow> directive list" where
  "parse_format [] = []"
| "parse_format [c] = (if c = CHR ''%'' then [DirBad] else if isspace c then [DirWS] else [DirLit c])"
| "parse_format (c # d # ds) =
     (if c = CHR ''%'' then directive_of d # parse_format ds
      else if isspace c then DirWS # parse_format (dropWhile isspace (d # ds))
      else DirLit c # parse_format (d # ds))"
  by pat_completeness auto
termination
  by (relation "measure length") (auto intro: le_less_trans [OF length_dropWhile_le])

declare parse_format.simps [simp del]

text \<open>A field a directive reads; the pattern's digits (\<^verbatim>\<open>\d\<close>), and the value of one.\<close>

datatype field = FieldY nat | Fieldm nat | Fieldd nat | NoField

definition re_digit :: "char \<Rightarrow> bool" where
  "re_digit c = (48 \<le> (of_char c :: nat) \<and> (of_char c :: nat) \<le> 57)"

definition digit_val :: "char \<Rightarrow> nat" where
  "digit_val c = of_char c - 48"

definition in_range :: "char \<Rightarrow> char \<Rightarrow> char \<Rightarrow> bool" where
  "in_range lo hi c = ((of_char lo :: nat) \<le> of_char c \<and> (of_char c :: nat) \<le> of_char hi)"

text \<open>Two characters, or one, taken from the front when they satisfy the alternative.\<close>

definition alt2 :: "(char \<Rightarrow> bool) \<Rightarrow> (char \<Rightarrow> bool) \<Rightarrow> string \<Rightarrow> (nat \<times> string) list" where
  "alt2 p1 p2 s =
     (case s of
        c1 # c2 # r \<Rightarrow> if p1 c1 \<and> p2 c2 then [(10 * digit_val c1 + digit_val c2, r)] else []
      | _ \<Rightarrow> [])"

definition alt1 :: "(char \<Rightarrow> bool) \<Rightarrow> string \<Rightarrow> (nat \<times> string) list" where
  "alt1 p s = (case s of c # r \<Rightarrow> if p c then [(digit_val c, r)] else [] | _ \<Rightarrow> [])"

definition month_abbrs :: "string list" where
  "month_abbrs = [''jan'', ''feb'', ''mar'', ''apr'', ''may'', ''jun'', ''jul'', ''aug'', ''sep'',
                  ''oct'', ''nov'', ''dec'']"

fun index_of :: "'a \<Rightarrow> 'a list \<Rightarrow> nat option" where
  "index_of x [] = None"
| "index_of x (y # ys) = (if x = y then Some 0 else map_option Suc (index_of x ys))"

text \<open>
  The ways a directive matches at the front of a string, in the order the pattern tries
  them; each with the field read and the rest of the string.
\<close>

fun match_dir :: "directive \<Rightarrow> string \<Rightarrow> (field \<times> string) list" where
  "match_dir DirY s =
     (if 4 \<le> length s \<and> list_all re_digit (take 4 s)
      then [(FieldY (foldl (\<lambda>n c. 10 * n + digit_val c) 0 (take 4 s)), drop 4 s)] else [])"
| "match_dir Dirm s =
     map (\<lambda>(v, r). (Fieldm v, r))
       (alt2 (\<lambda>c. c = CHR ''1'') (in_range CHR ''0'' CHR ''2'') s @
        alt2 (\<lambda>c. c = CHR ''0'') (in_range CHR ''1'' CHR ''9'') s @
        alt1 (in_range CHR ''1'' CHR ''9'') s)"
| "match_dir Dird s =
     map (\<lambda>(v, r). (Fieldd v, r))
       (alt2 (\<lambda>c. c = CHR ''3'') (in_range CHR ''0'' CHR ''1'') s @
        alt2 (in_range CHR ''1'' CHR ''2'') re_digit s @
        alt2 (\<lambda>c. c = CHR ''0'') (in_range CHR ''1'' CHR ''9'') s @
        alt1 (in_range CHR ''1'' CHR ''9'') s @
        (case s of
           c1 # c2 # r \<Rightarrow>
             if c1 = CHR '' '' \<and> in_range CHR ''1'' CHR ''9'' c2 then [(digit_val c2, r)] else []
         | _ \<Rightarrow> []))"
| "match_dir Dirb s =
     (if 3 \<le> length s
      then (case index_of (py_lower (take 3 s)) month_abbrs of
              Some i \<Rightarrow> [(Fieldm (Suc i), drop 3 s)]
            | None \<Rightarrow> [])
      else [])"
| "match_dir DirWS s =
     map (\<lambda>k. (NoField, drop k s)) (rev [1 ..< Suc (length (takeWhile isspace s))])"
| "match_dir (DirLit c) s =
     (case s of x # r \<Rightarrow> if lower_char x = lower_char c then [(NoField, r)] else [] | _ \<Rightarrow> [])"
| "match_dir DirBad s = []"

text \<open>All matches of a pattern at the front of a string, the preferred one first.\<close>

fun match_all :: "directive list \<Rightarrow> string \<Rightarrow> field list \<Rightarrow> (field list \<times> string) list" where
  "match_all [] s fs = [(fs, s)]"
| "match_all (d # ds) s fs =
     concat (map (\<lambda>(f, r). match_all ds r (fs @ [f])) (match_dir d s))"

text \<open>The date a match gives: 1900-01-01 where a field is not read.\<close>

record datetime =
  dt_year :: nat
  dt_month :: nat
  dt_day :: nat

fun set_field :: "datetime \<Rightarrow> field \<Rightarrow> datetime" where
  "set_field d (FieldY y) = d\<lparr>dt_year := y\<rparr>"
| "set_field d (Fieldm m) = d\<lparr>dt_month := m\<rparr>"
| "set_field d (Fieldd n) = d\<lparr>dt_day := n\<rparr>"
| "set_field d NoField = d"

definition is_leap :: "nat \<Rightarrow> bool" where
  "is_leap y = (y mod 4 = 0 \<and> (y mod 100 \<noteq> 0 \<or> y mod 400 = 0))"

definition days_in_month :: "nat \<Rightarrow> nat \<Rightarrow> nat" where
  "days_in_month y m =
     (if m = 2 then (if is_leap y then 29 else 28)
      else if m = 4 \<or> m = 6 \<or> m = 9 \<or> m = 11 then 30 else 31)"

definition valid_date :: "datetime \<Rightarrow> bool" where
  "valid_date d =
     (1 \<le> dt_year d \<and> dt_year d \<le> 9999 \<and> 1 \<le> dt_month d \<and> dt_month d \<le> 12 \<and>
      1 \<le> dt_day d \<and> dt_day d \<le> days_in_month (dt_year d) (dt_month d))"

text \<open>
  \<open>strptime s fmt\<close>: \<open>None\<close> is a \<open>ValueError\<close> (no match, unconverted data after the
  preferred match, a bad format, or a date that does not exist); the time of day is
  midnight.
\<close>

definition strptime :: "string \<Rightarrow> string \<Rightarrow> datetime option" where
  "strptime s fmt =
     (let ds = parse_format fmt in
      if DirBad \<in> set ds then None
      else
        (case match_all ds s [] of
           [] \<Rightarrow> None
         | (fs, rest) # others \<Rightarrow>
             if rest \<noteq> [] then None
             else
               (let d = foldl set_field \<lparr>dt_year = 1900, dt_month = 1, dt_day = 1\<rparr> fs
                in if valid_date d then Some d else None)))"

text \<open>The loop over the formats: the first format that parses wins.\<close>

fun try_formats :: "string list \<Rightarrow> string \<Rightarrow> datetime option" where
  "try_formats [] s = None"
| "try_formats (fmt # fmts) s =
     (case strptime s fmt of Some d \<Rightarrow> Some d | None \<Rightarrow> try_formats fmts s)"

definition eu_parse_date :: "string \<Rightarrow> datetime option" where
  "eu_parse_date date_str =
     (if date_str = [] then None
      else try_formats [''%Y-%m-%d'', ''%d/%m/%Y'', ''%d.%m.%Y'', ''%Y''] (strip date_str))"

definition ofac_parse_date :: "string \<Rightarrow> datetime option" where
  "ofac_parse_date date_str =
     (if date_str = [] then None
      else try_formats [''%d %b %Y'', ''%Y-%m-%d'', ''%d/%m/%Y'', ''%m/%d/%Y'', ''%Y'']
             (strip date_str))"

definition un_parse_date :: "string \<Rightarrow> datetime option" where
  "un_parse_date date_str =
     (if date_str = [] then None
      else try_formats [''%Y-%m-%d'', ''%d %b %Y'', ''%Y''] (strip date_str))"

definition uk_parse_date :: "string \<Rightarrow> datetime option" where
  "uk_parse_date date_str =
     (if date_str = [] then None
      else try_formats [''%d/%m/%Y'', ''%d-%m-%Y'', ''%Y-%m-%d'', ''%d %b %Y'', ''%b %Y'', ''%Y'']
             (py_replace ''00/00/'' ''01/01/'' (strip date_str)))"

text \<open>
  The constructor call \<^verbatim>\<open>SanctionEntity(id=..., name=..., alternative_names=..., entity_type=...,
  source=..., source_id=..., sanction_status=ACTIVE)\<close>; the other fields take their defaults.
\<close>

definition new_entity ::
  "string \<Rightarrow> string \<Rightarrow> string list \<Rightarrow> EntityType \<Rightarrow> string \<Rightarrow> string option \<Rightarrow> SanctionEntity" where
  "new_entity i n alts ty src sid =
     \<lparr>entity_id = i, name = n, alternative_names = alts, entity_type = ty, source = src,
      source_id = sid, sanction_status = ACTIVE, sanctions_programs = [], addresses = [],
      identifiers = [], data_quality_score = None\<rparr>"

section \<open>The source parsers (crawlers/*.py)\<close>

text \<open>
  An element of \<^verbatim>\<open>xml.etree.ElementTree\<close>: tag, attributes, text and children. The paths
  the parsers use are \<^verbatim>\<open>.//tag\<close> (the descendants with that tag, in document order) and
  \<^verbatim>\<open>tag\<close> (the children with that tag); \<^verbatim>\<open>find\<close> is the first element \<^verbatim>\<open>findall\<close> lists.

  Of the five helpers each \<^verbatim>\<open>_parse_entity\<close> calls after it has built the entity, the
  model has what they append to \<open>addresses\<close>, \<open>identifiers\<close> and \<open>sanctions_programs\<close>; the
  dates, references and personal details they fill are fields outside the model. Each
  helper catches what its statements raise, so none ends the parse.
\<close>

datatype xml = Element (tag: string) (attrib: "(string \<times> string) list") (etext: "string option")
  (children: "xml list")

fun descendants :: "xml \<Rightarrow> xml list" where
  "descendants (Element t a x cs) = concat (map (\<lambda>c. c # descendants c) cs)"

definition et_get :: "xml \<Rightarrow> string \<Rightarrow> string option" where
  "et_get e k = map_of (attrib e) k"

definition et_findall :: "xml \<Rightarrow> string \<Rightarrow> xml list" where
  "et_findall e path =
     (if prefix ''.//'' path then filter (\<lambda>d. tag d = drop 3 path) (descendants e)
      else filter (\<lambda>d. tag d = path) (children e))"

definition et_find :: "xml \<Rightarrow> string \<Rightarrow> xml option" where
  "et_find e path = (case et_findall e path of [] \<Rightarrow> None | x # xs \<Rightarrow> Some x)"

text \<open>
  \<^verbatim>\<open>_get_xml_text\<close> of the EU and OFAC parsers: the stripped text of the element found, when
  it is found and has a non-empty text. The UN parser's reads an attribute for a path
  that starts with \<^verbatim>\<open>@\<close>.
\<close>

definition get_xml_text :: "xml \<Rightarrow> string \<Rightarrow> string option" where
  "get_xml_text e path =
     (case et_find e path of
        None \<Rightarrow> None
      | Some found \<Rightarrow>
          (case etext found of None \<Rightarrow> None | Some t \<Rightarrow> if t = [] then None else Some (strip t)))"

definition un_get_xml_text :: "xml \<Rightarrow> string \<Rightarrow> string option" where
  "un_get_xml_text e path =
     (if prefix ''@'' path then map_option strip (et_get e (drop 1 path))
      else get_xml_text e path)"

text \<open>\<^verbatim>\<open>f"{x}"\<close> for an optional string, and \<^verbatim>\<open>x or default\<close> with a string default.\<close>

definition py_format :: "string option \<Rightarrow> string" where
  "py_format x = (case x of None \<Rightarrow> ''None'' | Some s \<Rightarrow> s)"

definition or_default :: "string option \<Rightarrow> string \<Rightarrow> string" where
  "or_default x d = (case x of None \<Rightarrow> d | Some s \<Rightarrow> if s = [] then d else s)"

definition or_none :: "string \<Rightarrow> string option" where
  "or_none s = (if s = [] then None else Some s)"

text \<open>
  \<^verbatim>\<open>_map_identifier_type\<close>: the first key of the mapping, in its order, that occurs in the
  lower-cased type.
\<close>

definition map_identifier_type ::
  "(string \<times> IdentifierType) list \<Rightarrow> string option \<Rightarrow> IdentifierType" where
  "map_identifier_type mapping ty =
     (case ty of
        None \<Rightarrow> OTHER_ID
      | Some t \<Rightarrow>
          if t = [] then OTHER_ID
          else (case find (\<lambda>(k, v). py_in k (py_lower t)) mapping of
                  Some (k, v) \<Rightarrow> v
                | None \<Rightarrow> OTHER_ID))"

text \<open>The loop the three XML parsers share for identifiers: an element with a number gives one.\<close>

definition xml_identifiers ::
  "(string \<times> IdentifierType) list \<Rightarrow> string \<Rightarrow> string \<Rightarrow> string \<Rightarrow> xml list \<Rightarrow> Identifier list" where
  "xml_identifiers mapping type_tag number_tag country_tag elems =
     concat (map (\<lambda>el.
        (case get_xml_text el number_tag of
           None \<Rightarrow> []
         | Some n \<Rightarrow>
             if n = [] then []
             else [\<lparr>identifier_type = map_identifier_type mapping (get_xml_text el type_tag),
                    id_value = n, issuing_country = get_xml_text el country_tag\<rparr>])) elems)"

definition names_head :: "string list \<Rightarrow> string" where
  "names_head names = (case names of [] \<Rightarrow> ''Unknown'' | n # ns \<Rightarrow> n)"

definition names_tail :: "string list \<Rightarrow> string list" where
  "names_tail names = (if 1 < length names then tl names else [])"

subsection \<open>EU (crawlers/eu_sanctions.py)\<close>

fun eu_names_loop :: "xml list \<Rightarrow> string list \<Rightarrow> string list" where
  "eu_names_loop [] names = names"
| "eu_names_loop (name_elem # rest) names =
     (let whole_name = get_xml_text name_elem ''wholeName'';
          names1 = (case whole_name of
                      None \<Rightarrow> names
                    | Some w \<Rightarrow> if w = [] then names else names @ [strip w]);
          first_name = get_xml_text name_elem ''firstName'';
          middle_name = get_xml_text name_elem ''middleName'';
          last_name = get_xml_text name_elem ''lastName'';
          names2 =
            (if truthy first_name \<or> truthy middle_name \<or> truthy last_name
             then (let full_name = py_join '' '' (filter_truthy [first_name, middle_name, last_name])
                   in if full_name \<noteq> [] \<and> full_name \<notin> set names1
                      then names1 @ [strip full_name] else names1)
             else names1)
      in eu_names_loop rest names2)"

definition eu_extract_names :: "xml \<Rightarrow> string list" where
  "eu_extract_names e = eu_names_loop (et_findall e ''.//nameAlias'') []"

definition eu_determine_entity_type :: "xml \<Rightarrow> EntityType" where
  "eu_determine_entity_type e =
     (let subject_type = get_xml_text e ''.//subjectType'';
          l = py_lower (py_format subject_type)
      in if truthy subject_type \<and> (py_in ''person'' l \<or> py_in ''individual'' l) then PERSON
         else if truthy subject_type \<and> (py_in ''entity'' l \<or> py_in ''enterprise'' l) then ENTITY
         else if truthy subject_type \<and> (py_in ''vessel'' l \<or> py_in ''ship'' l) then VESSEL
         else if et_find e ''.//birthdate'' \<noteq> None then PERSON
         else if et_find e ''.//identification'' \<noteq> None then ENTITY
         else UNKNOWN)"

definition eu_extract_addresses :: "xml \<Rightarrow> SanctionEntity \<Rightarrow> SanctionEntity" where
  "eu_extract_addresses e entity =
     entity\<lparr>addresses := addresses entity @
       map (\<lambda>a.
         (let st = get_xml_text a ''street''; ci = get_xml_text a ''city'';
              sp = get_xml_text a ''stateProvince''; pc = get_xml_text a ''zipCode'';
              co = get_xml_text a ''country''
          in \<lparr>address_type = OTHER_ADDRESS, street = st, city = ci, state_province = sp,
              postal_code = pc, country = co,
              full_address = or_none (py_join '', '' (filter_truthy [st, ci, sp, pc, co]))\<rparr>))
         (et_findall e ''.//address'')\<rparr>"

definition eu_id_mapping :: "(string \<times> IdentifierType) list" where
  "eu_id_mapping =
     [(''passport'', PASSPORT), (''national'', NATIONAL_ID), (''tax'', TAX_ID),
      (''registration'', REGISTRATION_NUMBER), (''id'', NATIONAL_ID)]"

definition eu_extract_identifiers :: "xml \<Rightarrow> SanctionEntity \<Rightarrow> SanctionEntity" where
  "eu_extract_identifiers e entity =
     entity\<lparr>identifiers := identifiers entity @
       xml_identifiers eu_id_mapping ''identificationTypeCode'' ''number'' ''countryIso2Code''
         (et_findall e ''.//identification'')\<rparr>"

definition eu_extract_sanctions_info :: "xml \<Rightarrow> SanctionEntity \<Rightarrow> SanctionEntity" where
  "eu_extract_sanctions_info e entity =
     entity\<lparr>sanctions_programs := sanctions_programs entity @
       concat (map (\<lambda>r.
         (case get_xml_text r ''number'' of
            None \<Rightarrow> []
          | Some n \<Rightarrow>
              if n = [] then []
              else [\<lparr>program_name = ''EU Regulation '' @ n, authority = ''European Union'',
                     program_type = ''EU Sanctions'', description = None, legal_basis = Some n\<rparr>]))
         (et_findall e ''.//regulation''))\<rparr>"

text \<open>
  \<^verbatim>\<open>EUSanctionsCrawler._parse_entity\<close>; \<open>src\<close> is \<^verbatim>\<open>self.config.source\<close>. No statement of
  its \<^verbatim>\<open>try\<close> block raises on an element, so the outcome is an entity; a record with
  neither \<^verbatim>\<open>unitId\<close> nor \<^verbatim>\<open>logicalId\<close> gets the id \<^verbatim>\<open>eu-None\<close>.
\<close>

definition eu_parse_entity :: "string \<Rightarrow> xml \<Rightarrow> exn + SanctionEntity" where
  "eu_parse_entity src e =
     (let entity_id0 = get_xml_text e ''.//unitId'';
          entity_id1 = (if \<not> truthy entity_id0 then get_xml_text e ''.//logicalId'' else entity_id0);
          names = eu_extract_names e;
          entity = new_entity (''eu-'' @ py_format entity_id1) (names_head names) (names_tail names)
                     (eu_determine_entity_type e) src entity_id1
      in Inr (eu_extract_sanctions_info e (eu_extract_identifiers e (eu_extract_addresses e entity))))"

subsection \<open>OFAC (crawlers/ofac.py)\<close>

fun ofac_aliases_loop :: "xml list \<Rightarrow> string list \<Rightarrow> string list" where
  "ofac_aliases_loop [] aliases = aliases"
| "ofac_aliases_loop (aka # rest) aliases =
     (let first_name = get_xml_text aka ''firstName'';
          last_name = get_xml_text aka ''lastName'';
          aliases1 =
            (if truthy first_name \<and> truthy last_name
             then (let alias = strip (py_format first_name @ '' '' @ py_format last_name)
                   in if alias \<notin> set aliases then aliases @ [alias] else aliases)
             else aliases)
      in ofac_aliases_loop rest aliases1)"

definition ofac_extract_aliases :: "xml \<Rightarrow> string list" where
  "ofac_extract_aliases e = ofac_aliases_loop (et_findall e ''.//aka'') []"

definition ofac_determine_entity_type :: "xml \<Rightarrow> EntityType" where
  "ofac_determine_entity_type e =
     (let sdn_type = py_lower (case et_get e ''sdnType'' of None \<Rightarrow> [] | Some v \<Rightarrow> v)
      in if py_in ''individual'' sdn_type then PERSON
         else if py_in ''entity'' sdn_type then ENTITY
         else if py_in ''vessel'' sdn_type then VESSEL
         else if py_in ''aircraft'' sdn_type then AIRCRAFT
         else if et_find e ''.//dateOfBirth'' \<noteq> None then PERSON
         else UNKNOWN)"

definition ofac_extract_addresses :: "xml \<Rightarrow> SanctionEntity \<Rightarrow> SanctionEntity" where
  "ofac_extract_addresses e entity =
     entity\<lparr>addresses := addresses entity @
       map (\<lambda>a.
         (let a1 = get_xml_text a ''address1''; a2 = get_xml_text a ''address2'';
              ci = get_xml_text a ''city''; sp = get_xml_text a ''stateOrProvince'';
              pc = get_xml_text a ''postalCode''; co = get_xml_text a ''country'';
              st = py_join '', '' (filter_truthy [a1, a2])
          in \<lparr>address_type = OTHER_ADDRESS, street = or_none st, city = ci, state_province = sp,
              postal_code = pc, country = co,
              full_address = or_none (py_join '', '' (filter_truthy [Some st, ci, sp, pc, co]))\<rparr>))
         (et_findall e ''.//address'')\<rparr>"

definition ofac_id_mapping :: "(string \<times> IdentifierType) list" where
  "ofac_id_mapping =
     [(''passport'', PASSPORT), (''national'', NATIONAL_ID), (''tax'', TAX_ID),
      (''registration'', REGISTRATION_NUMBER), (''swift'', SWIFT_BIC), (''imo'', IMO_NUMBER),
      (''call sign'', CALL_SIGN)]"

definition ofac_extract_identifiers :: "xml \<Rightarrow> SanctionEntity \<Rightarrow> SanctionEntity" where
  "ofac_extract_identifiers e entity =
     entity\<lparr>identifiers := identifiers entity @
       xml_identifiers ofac_id_mapping ''idType'' ''idNumber'' ''idCountry''
         (et_findall e ''.//id'')\<rparr>"

definition ofac_extract_sanctions_info :: "xml \<Rightarrow> SanctionEntity \<Rightarrow> SanctionEntity" where
  "ofac_extract_sanctions_info e entity =
     entity\<lparr>sanctions_programs := sanctions_programs entity @
       concat (map (\<lambda>p.
         (case etext p of
            None \<Rightarrow> []
          | Some n \<Rightarrow>
              if n = [] then []
              else [\<lparr>program_name = n, authority = ''US Treasury OFAC'',
                     program_type = ''OFAC Sanctions'', description = Some n, legal_basis = None\<rparr>]))
         (et_findall e ''.//program''))\<rparr>"

text \<open>\<^verbatim>\<open>OFACCrawler._parse_entity\<close>.\<close>

definition ofac_parse_entity :: "string \<Rightarrow> xml \<Rightarrow> exn + SanctionEntity" where
  "ofac_parse_entity src e =
     (let entity_id1 =
            or_default (py_or (et_get e ''uid'')
              (py_or (get_xml_text e ''.//uid'') (get_xml_text e ''.//uidNumber''))) ''unknown'';
          first_name = get_xml_text e ''.//firstName'';
          last_name = get_xml_text e ''.//lastName'';
          primary_name =
            (if truthy first_name \<or> truthy last_name
             then or_default
                    (Some (strip (py_join '' '' (filter_truthy [first_name, last_name]))))
                    ''Unknown''
             else or_default (get_xml_text e ''.//title'') ''Unknown'');
          entity = new_entity (''ofac-'' @ entity_id1) primary_name (ofac_extract_aliases e)
                     (ofac_determine_entity_type e) src (Some entity_id1)
      in Inr (ofac_extract_sanctions_info e
           (ofac_extract_identifiers e (ofac_extract_addresses e entity))))"

subsection \<open>UN (crawlers/un_sanctions.py)\<close>

definition un_alias_elems :: "xml \<Rightarrow> xml list" where
  "un_alias_elems e = et_findall e ''.//INDIVIDUAL_ALIAS'' @ et_findall e ''.//ENTITY_ALIAS''"

fun un_alias_loop :: "xml list \<Rightarrow> string list \<Rightarrow> string list" where
  "un_alias_loop [] names = names"
| "un_alias_loop (alias_elem # rest) names =
     (let alias_parts =
            filter_truthy [un_get_xml_text alias_elem ''ALIAS_NAME'',
                           un_get_xml_text alias_elem ''QUALITY''];
          names1 =
            (if alias_parts \<noteq> []
             then (let alias_name = strip (py_join '' '' alias_parts)
                   in if alias_name \<noteq> [] \<and> alias_name \<notin> set names
                      then names @ [alias_name] else names)
             else names)
      in un_alias_loop rest names1)"

definition un_extract_names :: "xml \<Rightarrow> string list" where
  "un_extract_names e =
     (let name_parts =
            filter_truthy (map (un_get_xml_text e)
              [''FIRST_NAME'', ''SECOND_NAME'', ''THIRD_NAME'', ''FOURTH_NAME'',
               ''NAME_ORIGINAL_SCRIPT'', ''ENTITY_NAME'']);
          names0 =
            (if name_parts \<noteq> []
             then (let full_name = strip (py_join '' '' name_parts)
                   in if full_name \<noteq> [] then [full_name] else [])
             else [])
      in un_alias_loop (un_alias_elems e) names0)"

definition un_determine_entity_type :: "xml \<Rightarrow> EntityType" where
  "un_determine_entity_type e =
     (let t = py_lower (tag e)
      in if py_in ''individual'' t then PERSON
         else if py_in ''entity'' t then ENTITY
         else if et_find e ''FIRST_NAME'' \<noteq> None then PERSON
         else if et_find e ''ENTITY_NAME'' \<noteq> None then ENTITY
         else UNKNOWN)"

definition un_extract_addresses :: "xml \<Rightarrow> SanctionEntity \<Rightarrow> SanctionEntity" where
  "un_extract_addresses e entity =
     entity\<lparr>addresses := addresses entity @
       map (\<lambda>a.
         (let st = un_get_xml_text a ''STREET''; ci = un_get_xml_text a ''CITY'';
              sp = un_get_xml_text a ''STATE_PROVINCE''; co = un_get_xml_text a ''COUNTRY''
          in \<lparr>address_type = OTHER_ADDRESS, street = st, city = ci, state_province = sp,
              postal_code = None, country = co,
              full_address = or_none (py_join '', '' (filter_truthy [st, ci, sp, co]))\<rparr>))
         (et_findall e ''.//INDIVIDUAL_ADDRESS'' @ et_findall e ''.//ENTITY_ADDRESS'')\<rparr>"

definition un_id_mapping :: "(string \<times> IdentifierType) list" where
  "un_id_mapping =
     [(''passport'', PASSPORT), (''national'', NATIONAL_ID), (''identity'', NATIONAL_ID),
      (''tax'', TAX_ID), (''registration'', REGISTRATION_NUMBER)]"

definition un_extract_identifiers :: "xml \<Rightarrow> SanctionEntity \<Rightarrow> SanctionEntity" where
  "un_extract_identifiers e entity =
     entity\<lparr>identifiers := identifiers entity @
       xml_identifiers un_id_mapping ''TYPE_OF_DOCUMENT'' ''NUMBER'' ''ISSUING_COUNTRY''
         (et_findall e ''.//INDIVIDUAL_DOCUMENT'' @ et_findall e ''.//ENTITY_DOCUMENT'')\<rparr>"

definition un_extract_sanctions_info :: "xml \<Rightarrow> SanctionEntity \<Rightarrow> SanctionEntity" where
  "un_extract_sanctions_info e entity =
     (case un_get_xml_text e ''UN_LIST_TYPE'' of
        None \<Rightarrow> entity
      | Some committee \<Rightarrow>
          if committee = [] then entity
          else entity\<lparr>sanctions_programs := sanctions_programs entity @
                 [\<lparr>program_name = ''UN '' @ committee,
                   authority = ''United Nations Security Council'',
                   program_type = ''UN Sanctions'', description = Some committee,
                   legal_basis = None\<rparr>]\<rparr>)"

text \<open>\<^verbatim>\<open>UNSanctionsCrawler._parse_entity\<close>.\<close>

definition un_parse_entity :: "string \<Rightarrow> xml \<Rightarrow> exn + SanctionEntity" where
  "un_parse_entity src e =
     (let entity_id1 =
            or_default (py_or (et_get e ''dataid'')
              (py_or (un_get_xml_text e ''@dataid'') (un_get_xml_text e ''REFERENCE_NUMBER'')))
              ''unknown'';
          names0 = un_extract_names e;
          names =
            (if names0 = []
             then filter (\<lambda>n. n \<noteq> [])
                    [strip (py_join '' '' (filter_truthy (map (un_get_xml_text e)
                       [''FIRST_NAME'', ''SECOND_NAME'', ''THIRD_NAME'', ''FOURTH_NAME''])))]
             else names0);
          entity = new_entity (''un-'' @ entity_id1) (names_head names) (names_tail names)
                     (un_determine_entity_type e) src (Some entity_id1)
      in Inr (un_extract_sanctions_info e (un_extract_identifiers e (un_extract_addresses e entity))))"

subsection \<open>UK Treasury (crawlers/uk_treasury.py)\<close>

text \<open>
  A row of \<^verbatim>\<open>csv.DictReader\<close>: a dictionary from column names to values, where the value
  of a column missing from a short row is \<open>None\<close>. \<open>uk_get\<close> is \<^verbatim>\<open>row_data.get(key, '')\<close>, and
  \<open>uk_get_strip\<close> is \<^verbatim>\<open>row_data.get(key, '').strip()\<close>, which raises \<open>AttributeError\<close> on
  \<open>None\<close>.
\<close>

type_synonym csv_row = "string \<rightharpoonup> string option"

definition uk_get :: "csv_row \<Rightarrow> string \<Rightarrow> string option" where
  "uk_get row k = (case row k of None \<Rightarrow> Some [] | Some v \<Rightarrow> v)"

definition none_has_no_attribute :: "string \<Rightarrow> exn" where
  "none_has_no_attribute a =
     AttributeError ([CHR 0x27] @ ''NoneType'' @ [CHR 0x27] @ '' object has no attribute '' @
                     [CHR 0x27] @ a @ [CHR 0x27])"

definition uk_get_strip :: "csv_row \<Rightarrow> string \<Rightarrow> exn + string" where
  "uk_get_strip row k =
     (case uk_get row k of None \<Rightarrow> Inl (none_has_no_attribute ''strip'') | Some v \<Rightarrow> Inr (strip v))"

text \<open>Several such reads in a row: the first that raises ends them.\<close>

fun uk_get_all :: "csv_row \<Rightarrow> string list \<Rightarrow> exn + string list" where
  "uk_get_all row [] = Inr []"
| "uk_get_all row (k # ks) =
     (case uk_get_strip row k of
        Inl e \<Rightarrow> Inl e
      | Inr v \<Rightarrow> (case uk_get_all row ks of Inl e \<Rightarrow> Inl e | Inr vs \<Rightarrow> Inr (v # vs)))"

text \<open>\<^verbatim>\<open>s.split()\<close>: the pieces between runs of whitespace.\<close>

function py_split :: "string \<Rightarrow> string list" where
  "py_split s =
     (if dropWhile isspace s = [] then []
      else takeWhile (\<lambda>c. \<not> isspace c) (dropWhile isspace s) #
           py_split (dropWhile (\<lambda>c. \<not> isspace c) (dropWhile isspace s)))"
  by pat_completeness auto
termination
proof (relation "measure length")
  fix s :: string
  assume n: "dropWhile isspace s \<noteq> []"
  then have "\<not> isspace (hd (dropWhile isspace s))" by (rule hd_dropWhile)
  with n have "dropWhile (\<lambda>c. \<not> isspace c) (dropWhile isspace s) =
      dropWhile (\<lambda>c. \<not> isspace c) (tl (dropWhile isspace s))"
    by (cases "dropWhile isspace s") auto
  moreover have "length (dropWhile (\<lambda>c. \<not> isspace c) (tl (dropWhile isspace s)))
      \<le> length (tl (dropWhile isspace s))" by (rule length_dropWhile_le)
  moreover have "length (tl (dropWhile isspace s)) < length (dropWhile isspace s)"
    using n by simp
  moreover have "length (dropWhile isspace s) \<le> length s" by (rule length_dropWhile_le)
  ultimately show "(dropWhile (\<lambda>c. \<not> isspace c) (dropWhile isspace s), s) \<in> measure length"
    by simp
qed simp

declare py_split.simps [simp del]

definition uk_determine_entity_type :: "csv_row \<Rightarrow> exn + EntityType" where
  "uk_determine_entity_type row =
     (case uk_get row ''GroupType'' of
        None \<Rightarrow> Inl (none_has_no_attribute ''lower'')
      | Some v \<Rightarrow>
          (let group_type = py_lower v
           in Inr (if py_in ''individual'' group_type then PERSON
                   else if py_in ''entity'' group_type \<or> py_in ''organisation'' group_type
                     then ENTITY
                   else if py_in ''ship'' group_type \<or> py_in ''vessel'' group_type then VESSEL
                   else if (case row ''DOB'' of Some (Some d) \<Rightarrow> d \<noteq> [] | _ \<Rightarrow> False)
                     then PERSON
                   else UNKNOWN)))"

definition looks_like_postal_code :: "string \<Rightarrow> bool" where
  "looks_like_postal_code t =
     (3 \<le> length (strip t) \<and> length (strip t) \<le> 10 \<and> list_ex isdigit (strip t))"

text \<open>
  The helpers catch their own exceptions: a read that raises ends the helper with what it
  had appended so far.
\<close>

definition uk_extract_addresses :: "csv_row \<Rightarrow> SanctionEntity \<Rightarrow> SanctionEntity" where
  "uk_extract_addresses row entity =
     (case uk_get_all row [''Address1'', ''Address2'', ''Address3'', ''Address4'', ''Address5'',
                           ''Address6''] of
        Inl e \<Rightarrow> entity
      | Inr address_fields \<Rightarrow>
          (let address_parts = filter (\<lambda>p. p \<noteq> []) address_fields
           in if address_parts = [] then entity
              else entity\<lparr>addresses := addresses entity @
                     [\<lparr>address_type = OTHER_ADDRESS, street = None, city = None,
                       state_province = None,
                       postal_code = find looks_like_postal_code address_parts,
                       country = (if length (last address_parts) \<le> 50
                                  then Some (last address_parts) else None),
                       full_address = Some (py_join '', '' address_parts)\<rparr>]\<rparr>))"

definition uk_extract_identifiers :: "csv_row \<Rightarrow> SanctionEntity \<Rightarrow> SanctionEntity" where
  "uk_extract_identifiers row entity =
     (case uk_get_strip row ''PassportDetails'' of
        Inl e \<Rightarrow> entity
      | Inr passport_details \<Rightarrow>
          (let entity1 =
                 (case find (\<lambda>part. 6 \<le> length part) (py_split passport_details) of
                    None \<Rightarrow> entity
                  | Some part \<Rightarrow>
                      entity\<lparr>identifiers := identifiers entity @
                        [\<lparr>identifier_type = PASSPORT, id_value = part, issuing_country = None\<rparr>]\<rparr>)
           in (case uk_get_strip row ''NationalIdentificationNumber'' of
                 Inl e \<Rightarrow> entity1
               | Inr national_id \<Rightarrow>
                   if national_id = [] then entity1
                   else entity1\<lparr>identifiers := identifiers entity1 @
                          [\<lparr>identifier_type = NATIONAL_ID, id_value = national_id,
                            issuing_country = None\<rparr>]\<rparr>)))"

definition uk_extract_sanctions_info :: "csv_row \<Rightarrow> SanctionEntity \<Rightarrow> SanctionEntity" where
  "uk_extract_sanctions_info row entity =
     (case uk_get_strip row ''Regime'' of
        Inl e \<Rightarrow> entity
      | Inr regime \<Rightarrow>
          if regime = [] then entity
          else entity\<lparr>sanctions_programs := sanctions_programs entity @
                 [\<lparr>program_name = regime, authority = ''UK HM Treasury OFSI'',
                   program_type = ''UK Sanctions'', description = Some regime,
                   legal_basis = None\<rparr>]\<rparr>)"

text \<open>
  The \<^verbatim>\<open>try\<close> block of \<^verbatim>\<open>UKTreasuryCrawler._parse_entity\<close>, and the method: an exception
  of the block is raised again as \<open>DataValidationError\<close>.
\<close>

definition uk_parse_body :: "string \<Rightarrow> csv_row \<Rightarrow> exn + SanctionEntity" where
  "uk_parse_body src row =
     (case uk_get_strip row ''GroupID'' of
        Inl e \<Rightarrow> Inl e
      | Inr entity_id1 \<Rightarrow>
          (case uk_get_all row [''Name1'', ''Name2'', ''Name3'', ''Name4'', ''Name5'', ''Name6''] of
             Inl e \<Rightarrow> Inl e
           | Inr name_fields \<Rightarrow>
               (let names = filter (\<lambda>n. n \<noteq> []) name_fields
                in (case uk_determine_entity_type row of
                      Inl e \<Rightarrow> Inl e
                    | Inr ty \<Rightarrow>
                        Inr (uk_extract_sanctions_info row (uk_extract_identifiers row
                          (uk_extract_addresses row
                            (new_entity (''uk-'' @ entity_id1) (names_head names)
                               (names_tail names) ty src (Some entity_id1)))))))))"

definition uk_parse_entity :: "string \<Rightarrow> csv_row \<Rightarrow> exn + SanctionEntity" where
  "uk_parse_entity src row =
     (case uk_parse_body src row of
        Inl e \<Rightarrow> Inl (DataValidationError (''Failed to parse UK entity: '' @ py_str e))
      | Inr entity \<Rightarrow> Inr entity)"

section \<open>The fixtures of the test suite (tests/conftest.py, tests/test_base_crawler.py)\<close>

definition test_config :: CrawlerConfig where
  "test_config =
     \<lparr>config_source = ''test-source'', base_url = ''https://example.com/test'',
      rate_limit_seconds = 1 / 10, max_retries = 3, timeout_seconds = 5,
      user_agent = ''SanctionsWatch/0.1.0'', headers = [], verify_ssl = True\<rparr>"

text \<open>\<^verbatim>\<open>TestCrawler(test_config)\<close>: a new crawler has no session.\<close>

definition test_crawler :: BaseCrawler where
  "test_crawler = \<lparr>config = test_config, session = None\<rparr>"

text \<open>\<^verbatim>\<open>TestCrawler._parse_entity\<close>, and the two entities of \<^verbatim>\<open>test_entity_validation\<close>.\<close>

definition test_parse_entity :: "BaseCrawler \<Rightarrow> 'r \<Rightarrow> exn + SanctionEntity" where
  "test_parse_entity c raw =
     Inr (new_entity ''test-1'' ''Test Entity'' [] PERSON (config_source (config c)) None)"

definition valid_entity :: SanctionEntity where
  "valid_entity = new_entity ''test-1'' ''Test Entity'' [] PERSON ''test-source'' None"


section \<open>Properties of strings and of the validator\<close>

lemma dropWhile_rest_all: "(\<forall>x\<in>set (dropWhile P xs). P x) \<longleftrightarrow> dropWhile P xs = []"
proof
  assume a: "\<forall>x\<in>set (dropWhile P xs). P x"
  show "dropWhile P xs = []"
  proof (rule ccontr)
    assume n: "dropWhile P xs \<noteq> []"
    then have "\<not> P (hd (dropWhile P xs))" by (rule hd_dropWhile)
    moreover have "hd (dropWhile P xs) \<in> set (dropWhile P xs)" using n by simp
    ultimately show False using a by blast
  qed
qed (auto dest: set_dropWhileD)

lemma strip_Nil_iff: "strip s = [] \<longleftrightarrow> (\<forall>c\<in>set s. isspace c)"
  unfolding strip_def lstrip_def rstrip_def
  by (simp add: dropWhile_rest_all)

lemma validate_entity_total:
  "validate_entity e =
     Inr (strip (name e) \<noteq> [] \<and> strip (entity_id e) \<noteq> [] \<and> source e \<noteq> [])"
  by (auto simp: validate_entity_def validate_checks_def strip_Nil_iff)

lemma collect_eq:
  "collect ys ents errs =
     (ents @ filter (\<lambda>e. validate_entity e = Inr True) ys,
      errs @ map validation_failed_msg (filter (\<lambda>e. validate_entity e \<noteq> Inr True) ys), None)"
  by (induction ys arbitrary: ents errs) (auto simp: validate_entity_total)

lemma strip_test_id: "strip ''test-1'' = ''test-1''"
  by (simp add: strip_def lstrip_def rstrip_def isspace_def)

lemma strip_test_name: "strip ''Test Entity'' = ''Test Entity''"
  by (simp add: strip_def lstrip_def rstrip_def isspace_def)

lemma strip_space: "strip '' '' = []"
  by (simp add: strip_Nil_iff isspace_def)

lemma validate_valid_entity: "validate_entity valid_entity = Inr True"
  by (simp add: validate_entity_total valid_entity_def new_entity_def strip_test_id strip_test_name)



text \<open>
  C4. The validator never raises, and it rejects a name and an id that are blank after
  trimming; but the source is tested for emptiness only, without trimming. At an entity
  whose source is a single space the validator returns true, where the same space as name
  or as id is rejected.
\<close>

theorem validate_entity_accepts_blank_source:
  "validate_entity (new_entity ''test-1'' ''Test Entity'' [] PERSON '' '' None) = Inr True \<and>
   strip (source (new_entity ''test-1'' ''Test Entity'' [] PERSON '' '' None)) = [] \<and>
   validate_entity (new_entity ''test-1'' '' '' [] PERSON ''test-source'' None) = Inr False \<and>
   validate_entity (new_entity '' '' ''Test Entity'' [] PERSON ''test-source'' None) = Inr False"
  by (simp add: validate_entity_total new_entity_def strip_test_id strip_test_name strip_space)

section \<open>Properties of the crawl\<close>

lemma crawl_outcome:
  "crawl failure fetched process t0 t1 c =
     (let (c1, ents, errs0, ex) = crawl_try failure fetched process c;
          errs = errs0 @ (case ex of Some (Exc e) \<Rightarrow> [crawl_failed_msg c e] | _ \<Rightarrow> [])
      in (Inr \<lparr>result_source = config_source (config c), entities = ents, crawl_timestamp = t0,
             total_entities = int (length ents), success_count = int (length ents),
             error_count = int (length errs), errors = errs,
             metadata = \<lparr>crawl_duration_seconds = of_int (t1 - t0) / 1000000,
                start_time = t0, end_time = t1\<rparr>\<rparr>, c1))"
  by (simp add: crawl_def crawl_except_def finally_return_def Let_def
      split: prod.splits option.splits py_raise.splits)

text \<open>
  C3. Every run of \<open>crawl\<close> returns a result, a value built once in the \<^verbatim>\<open>finally\<close> block,
  whose counts agree with its lists: \<open>total_entities\<close> is the length of \<open>entities\<close>,
  \<open>success_count\<close> equals \<open>total_entities\<close>, and \<open>error_count\<close> is the length of \<open>errors\<close>.
\<close>

theorem crawl_result_counts:
  "\<exists>r. fst (crawl failure fetched process t0 t1 c) = Inr r \<and>
       total_entities r = int (length (entities r)) \<and>
       success_count r = total_entities r \<and>
       error_count r = int (length (errors r))"
  by (simp add: crawl_outcome Let_def split: prod.splits)

theorem crawl_result_counts_witness:
  "\<exists>r. fst (crawl None (Inr (RawSingle ''data'')) (process_data (test_parse_entity test_crawler))
            0 1 test_crawler) = Inr r \<and>
       total_entities r = 1 \<and> success_count r = 1 \<and> error_count r = 0 \<and> errors r = []"
  using crawl_result_counts [of None "Inr (RawSingle ''data'')"
      "process_data (test_parse_entity test_crawler)" 0 1 test_crawler]
  by (simp add: crawl_outcome crawl_try_def create_session_def process_data_def
      test_parse_entity_def collect_eq validate_entity_total new_entity_def test_crawler_def
      test_config_def strip_test_id strip_test_name)


lemma crawl_try_session:
  "session c \<noteq> None \<or> failure = None \<Longrightarrow>
   \<exists>c1. session c1 \<noteq> None \<and> config c1 = config c \<and> (session c \<noteq> None \<longrightarrow> c1 = c) \<and>
     crawl_try failure fetched process c =
       (case fetched of
          Inl x \<Rightarrow> (c1, [], [], Some x)
        | Inr raw \<Rightarrow>
            (c1, filter (\<lambda>x. validate_entity x = Inr True) (yielded (process raw)),
             map validation_failed_msg
               (filter (\<lambda>x. validate_entity x \<noteq> Inr True) (yielded (process raw))),
             raised (process raw)))"
  by (cases "session c")
    (auto simp: crawl_try_def create_session_def collect_eq Let_def split: sum.splits option.splits)

lemma process_items_eq:
  "process_items parse items ys ws =
     (ys @ List.map_filter (\<lambda>item. case parse item of Inr e \<Rightarrow> Some e | Inl x \<Rightarrow> None) items,
      ws @ List.map_filter (\<lambda>item. case parse item of Inl x \<Rightarrow> Some (py_str x) | Inr e \<Rightarrow> None) items)"
  by (induction items arbitrary: ys ws) (auto split: sum.splits)

lemma process_data_list:
  "process_data parse (RawList items) =
     \<lparr>yielded = List.map_filter (\<lambda>item. case parse item of Inr e \<Rightarrow> Some e | Inl x \<Rightarrow> None) items,
      warnings = List.map_filter (\<lambda>item. case parse item of Inl x \<Rightarrow> Some (py_str x) | Inr e \<Rightarrow> None) items,
      raised = None\<rparr>"
  by (simp add: process_data_def process_items_eq)


lemma map_filter_append: "List.map_filter f (xs @ ys) = List.map_filter f xs @ List.map_filter f ys"
  by (simp add: List.map_filter_def)





text \<open>
  C2. Over a list of raw records, \<open>process_data\<close> yields exactly the entities of the records
  that parse, in order, logs one warning per record that does not, and never ends with an
  exception: a failing record between two stretches of records changes nothing in what
  the stretches yield. In a crawl whose session is available, the valid ones among the
  parsed entities are the result's \<open>entities\<close>.
\<close>

theorem parse_failure_skips_only_that_record:
  "yielded (process_data parse (RawList items)) =
     List.map_filter (\<lambda>item. case parse item of Inr e \<Rightarrow> Some e | Inl x \<Rightarrow> None) items \<and>
   warnings (process_data parse (RawList items)) =
     List.map_filter (\<lambda>item. case parse item of Inl x \<Rightarrow> Some (py_str x) | Inr e \<Rightarrow> None) items \<and>
   raised (process_data parse (RawList items)) = None \<and>
   (\<forall>before item after e. parse item = Inl e \<longrightarrow>
      yielded (process_data parse (RawList (before @ item # after))) =
        yielded (process_data parse (RawList before)) @
        yielded (process_data parse (RawList after)) \<and>
      warnings (process_data parse (RawList (before @ item # after))) =
        warnings (process_data parse (RawList before)) @ [py_str e] @
        warnings (process_data parse (RawList after))) \<and>
   (session c \<noteq> None \<or> failure = None \<longrightarrow>
      (\<exists>r. fst (crawl failure (Inr (RawList items)) (process_data parse) t0 t1 c) = Inr r \<and>
         entities r =
           filter (\<lambda>x. validate_entity x = Inr True)
             (List.map_filter (\<lambda>item. case parse item of Inr e \<Rightarrow> Some e | Inl x \<Rightarrow> None) items) \<and>
         errors r =
           map validation_failed_msg (filter (\<lambda>x. validate_entity x \<noteq> Inr True)
             (List.map_filter (\<lambda>item. case parse item of Inr e \<Rightarrow> Some e | Inl x \<Rightarrow> None) items))))"
proof (intro conjI allI impI)
  assume a: "session c \<noteq> None \<or> failure = None"
  from crawl_try_session [OF a, of "Inr (RawList items)" "process_data parse"]
  show "\<exists>r. fst (crawl failure (Inr (RawList items)) (process_data parse) t0 t1 c) = Inr r \<and>
         entities r =
           filter (\<lambda>x. validate_entity x = Inr True)
             (List.map_filter (\<lambda>item. case parse item of Inr e \<Rightarrow> Some e | Inl x \<Rightarrow> None) items) \<and>
         errors r =
           map validation_failed_msg (filter (\<lambda>x. validate_entity x \<noteq> Inr True)
             (List.map_filter (\<lambda>item. case parse item of Inr e \<Rightarrow> Some e | Inl x \<Rightarrow> None) items))"
    by (auto simp: crawl_outcome process_data_list)
qed (simp_all add: process_data_list map_filter_append)


theorem parse_failure_skips_only_that_record_witness:
  "yielded (process_data
      (\<lambda>n :: nat. if n = 2 then Inl (DataValidationError ''Failed to parse'') else Inr valid_entity)
      (RawList [1, 2, 3])) = [valid_entity, valid_entity] \<and>
   warnings (process_data
      (\<lambda>n :: nat. if n = 2 then Inl (DataValidationError ''Failed to parse'') else Inr valid_entity)
      (RawList [1, 2, 3])) = [''Failed to parse''] \<and>
   (\<exists>r. fst (crawl None (Inr (RawList [1, 2, 3]))
        (process_data (\<lambda>n :: nat. if n = 2 then Inl (DataValidationError ''Failed to parse'')
                                   else Inr valid_entity)) 0 1 test_crawler) = Inr r \<and>
      entities r = [valid_entity, valid_entity] \<and> errors r = [])"
  using parse_failure_skips_only_that_record
    [of "\<lambda>n :: nat. if n = 2 then Inl (DataValidationError ''Failed to parse'') else Inr valid_entity"
        "[1, 2, 3]" test_crawler None 0 1]
  by (simp add: validate_valid_entity)

lemma crawl_session:
  "session c \<noteq> None \<or> failure = None \<Longrightarrow>
     session (snd (crawl failure fetched process t0 t1 c)) \<noteq> None \<and>
     (session c \<noteq> None \<longrightarrow> snd (crawl failure fetched process t0 t1 c) = c)"
  using crawl_try_session [of c failure fetched process]
  by (cases fetched) (auto simp: crawl_outcome)

lemma aexit_closed: "session (aexit c) = None"
  by (simp add: aexit_def close_session_def)

text \<open>
  C6, as stated, fails: a crawl that opens its session and whose fetch fails returns with
  the session still open.
\<close>

theorem crawl_leaves_session_open_counterexample:
  "session (snd (crawl None (Inl (Exc (CrawlerError ''Failed to fetch data'')) :: py_raise + string raw_data)
      (process_data (test_parse_entity test_crawler)) 0 1 test_crawler)) \<noteq> None"
  by (rule crawl_session [THEN conjunct1]) simp

text \<open>
  C6, amended. \<open>crawl\<close> itself never releases the session: a session that was open on entry
  is left as it was, and one that \<open>crawl\<close> created is still open when it returns, whether
  the fetch or the processing failed or not. The release is the scope's: \<open>aexit\<close> after
  \<open>crawl\<close> leaves no session, so a crawl run inside \<^verbatim>\<open>async with\<close> ends with the session
  closed on every exit path of \<open>crawl\<close>.
\<close>

theorem session_released_by_scope_exit:
  "(session c \<noteq> None \<or> failure = None \<longrightarrow>
      session (snd (crawl failure fetched process t0 t1 c)) \<noteq> None) \<and>
   (session c \<noteq> None \<longrightarrow> snd (crawl failure fetched process t0 t1 c) = c) \<and>
   session (aexit (snd (crawl failure fetched process t0 t1 c))) = None \<and>
   (enter_failure = None \<longrightarrow>
      session (snd (crawl_scoped enter_failure failure fetched process t0 t1 c)) = None)"
  using crawl_session [of c failure fetched process t0 t1]
  by (auto simp: aexit_closed crawl_scoped_def aenter_def create_session_def split: prod.splits)

lemma test_crawler_no_session: "session test_crawler = None"
  by (simp add: test_crawler_def)

theorem session_released_by_scope_exit_witness:
  "session (snd (crawl None (Inl (Exc (CrawlerError ''Failed to fetch data'')) :: py_raise + string raw_data)
      (process_data (test_parse_entity test_crawler)) 0 1 test_crawler)) \<noteq> None \<and>
   session (aexit (snd (crawl None (Inl (Exc (CrawlerError ''Failed to fetch data'')) :: py_raise + string raw_data)
      (process_data (test_parse_entity test_crawler)) 0 1 test_crawler))) = None \<and>
   session (snd (crawl_scoped None None (Inl (Exc (CrawlerError ''Failed to fetch data'')) :: py_raise + string raw_data)
      (process_data (test_parse_entity test_crawler)) 0 1 test_crawler)) = None"
  using session_released_by_scope_exit [of test_crawler None "Inl (Exc (CrawlerError ''Failed to fetch data'')) :: py_raise + string raw_data"
      "process_data (test_parse_entity test_crawler)" 0 1 None]
    test_crawler_no_session
  by simp

section \<open>Properties of the request\<close>

lemma retry_loop_3:
  "retry_loop 3 1 t a [] =
     (case a 1 of
        Inr r \<Rightarrow> \<lparr>outcome = Inr r, attempts = 1, waits = []\<rparr>
      | Inl e1 \<Rightarrow>
          if \<not> retry_if_exception_type e1 then \<lparr>outcome = Inl e1, attempts = 1, waits = []\<rparr>
          else
            (case a 2 of
               Inr r \<Rightarrow> \<lparr>outcome = Inr r, attempts = 2, waits = [4]\<rparr>
             | Inl e2 \<Rightarrow>
                 if \<not> retry_if_exception_type e2 then \<lparr>outcome = Inl e2, attempts = 2, waits = [4]\<rparr>
                 else
                   (case a 3 of
                      Inr r \<Rightarrow> \<lparr>outcome = Inr r, attempts = 3, waits = [4, 4]\<rparr>
                    | Inl e3 \<Rightarrow>
                        if \<not> retry_if_exception_type e3
                        then \<lparr>outcome = Inl e3, attempts = 3, waits = [4, 4]\<rparr>
                        else \<lparr>outcome = Inl (RetryError e3 (t 3)), attempts = 3,
                               waits = [4, 4]\<rparr>)))"
  apply (subst retry_loop.simps)
  apply (subst retry_loop.simps)
  apply (subst retry_loop.simps)
  apply (simp add: stop_after_attempt_def wait_exponential_def numeral_2_eq_2 numeral_3_eq_3
      split: sum.splits)
  done

lemma make_request_once_cases:
  "session c \<noteq> None \<Longrightarrow>
     (\<forall>r. status r < 400 \<longrightarrow> make_request_once c url (Inr r) = Inr r) \<and>
     (\<forall>r. 400 \<le> status r \<longrightarrow>
        (\<exists>e. make_request_once c url (Inr r) = Inl e \<and> retry_if_exception_type e)) \<and>
     (\<forall>e. make_request_once c url (Inl e) = Inl e)"
  by (auto simp: make_request_once_def raise_for_status_def retry_if_exception_type_def)

text \<open>
  C5, as stated, fails: a response with status 500 is not a permanent failure. A server
  that answers 500 every time is asked three times, and one that answers 500 and then
  200 gives a successful request at the second attempt.
\<close>

theorem make_request_retries_http_errors_counterexample:
  "attempts (make_request
      (test_crawler\<lparr>session := Some \<lparr>session_timeout = 5, session_verify_ssl = True,
         session_headers = [(''User-Agent'', ''SanctionsWatch/0.1.0'')]\<rparr>\<rparr>)
      ''https://example.com/test'' (\<lambda>k. ''RetryError'')
      (\<lambda>k. Inr \<lparr>status = 500, error_text = ''500, Internal Server Error''\<rparr>)) = 3 \<and>
   make_request
      (test_crawler\<lparr>session := Some \<lparr>session_timeout = 5, session_verify_ssl = True,
         session_headers = [(''User-Agent'', ''SanctionsWatch/0.1.0'')]\<rparr>\<rparr>)
      ''https://example.com/test'' (\<lambda>k. ''RetryError'')
      (\<lambda>k. if k = 1 then Inr \<lparr>status = 500, error_text = ''500, Internal Server Error''\<rparr>
           else Inr \<lparr>status = 200, error_text = []\<rparr>) =
     \<lparr>outcome = Inr \<lparr>status = 200, error_text = []\<rparr>, attempts = 2, waits = [4]\<rparr>"
  unfolding make_request_def retry_loop_3
  by (simp add: make_request_once_def raise_for_status_def retry_if_exception_type_def)

text \<open>
  C5, amended. On an open session a response with a status below 400 is returned at once;
  a status of 400 or more, 429 or not, raises a retryable failure, and so does a client
  error of the transport. Retryable failures are retried up to 3 attempts, with a wait of
  4 seconds between attempts (the exponential schedule clamped to between 4 and 10), and
  after the third the decorator raises \<open>RetryError\<close> from the last failure. Only an exception
  that is neither a client error nor a rate-limit signal surfaces at once: so does the
  missing session.
\<close>

theorem make_request_retry_policy:
  "(session c = None \<longrightarrow>
      make_request c url retry_text transport =
        \<lparr>outcome = Inl (CrawlerError ''Session not initialized. Use async context manager.''),
         attempts = 1, waits = []\<rparr>) \<and>
   (session c \<noteq> None \<longrightarrow>
      (\<forall>r. status r < 400 \<longrightarrow> make_request_once c url (Inr r) = Inr r) \<and>
      (\<forall>r. 400 \<le> status r \<longrightarrow>
         (\<exists>e. make_request_once c url (Inr r) = Inl e \<and> retry_if_exception_type e)) \<and>
      (\<forall>e. make_request_once c url (Inl e) = Inl e)) \<and>
   make_request c url retry_text transport =
     (case make_request_once c url (transport 1) of
        Inr r \<Rightarrow> \<lparr>outcome = Inr r, attempts = 1, waits = []\<rparr>
      | Inl e1 \<Rightarrow>
          if \<not> retry_if_exception_type e1 then \<lparr>outcome = Inl e1, attempts = 1, waits = []\<rparr>
          else
            (case make_request_once c url (transport 2) of
               Inr r \<Rightarrow> \<lparr>outcome = Inr r, attempts = 2, waits = [4]\<rparr>
             | Inl e2 \<Rightarrow>
                 if \<not> retry_if_exception_type e2 then \<lparr>outcome = Inl e2, attempts = 2, waits = [4]\<rparr>
                 else
                   (case make_request_once c url (transport 3) of
                      Inr r \<Rightarrow> \<lparr>outcome = Inr r, attempts = 3, waits = [4, 4]\<rparr>
                    | Inl e3 \<Rightarrow>
                        if \<not> retry_if_exception_type e3
                        then \<lparr>outcome = Inl e3, attempts = 3, waits = [4, 4]\<rparr>
                        else \<lparr>outcome = Inl (RetryError e3 (retry_text 3)), attempts = 3,
                               waits = [4, 4]\<rparr>)))"
proof (intro conjI impI)
  assume "session c = None"
  then show "make_request c url retry_text transport =
        \<lparr>outcome = Inl (CrawlerError ''Session not initialized. Use async context manager.''),
         attempts = 1, waits = []\<rparr>"
    unfolding make_request_def retry_loop_3
    by (simp add: make_request_once_def retry_if_exception_type_def)
next
  show "make_request c url retry_text transport =
     (case make_request_once c url (transport 1) of
        Inr r \<Rightarrow> \<lparr>outcome = Inr r, attempts = 1, waits = []\<rparr>
      | Inl e1 \<Rightarrow>
          if \<not> retry_if_exception_type e1 then \<lparr>outcome = Inl e1, attempts = 1, waits = []\<rparr>
          else
            (case make_request_once c url (transport 2) of
               Inr r \<Rightarrow> \<lparr>outcome = Inr r, attempts = 2, waits = [4]\<rparr>
             | Inl e2 \<Rightarrow>
                 if \<not> retry_if_exception_type e2 then \<lparr>outcome = Inl e2, attempts = 2, waits = [4]\<rparr>
                 else
                   (case make_request_once c url (transport 3) of
                      Inr r \<Rightarrow> \<lparr>outcome = Inr r, attempts = 3, waits = [4, 4]\<rparr>
                    | Inl e3 \<Rightarrow>
                        if \<not> retry_if_exception_type e3
                        then \<lparr>outcome = Inl e3, attempts = 3, waits = [4, 4]\<rparr>
                        else \<lparr>outcome = Inl (RetryError e3 (retry_text 3)), attempts = 3,
                               waits = [4, 4]\<rparr>)))"
    unfolding make_request_def by (rule retry_loop_3)
qed (simp_all add: make_request_once_cases)

theorem make_request_retry_policy_witness:
  "make_request
      (test_crawler\<lparr>session := Some \<lparr>session_timeout = 5, session_verify_ssl = True,
         session_headers = [(''User-Agent'', ''SanctionsWatch/0.1.0'')]\<rparr>\<rparr>)
      ''https://example.com/test'' (\<lambda>k. ''RetryError'')
      (\<lambda>k. if k = 1 then Inl (ClientConnectionError ''Connection reset'')
           else if k = 2 then Inr \<lparr>status = 429, error_text = ''429, Too Many Requests''\<rparr>
           else Inr \<lparr>status = 503, error_text = ''503, Service Unavailable''\<rparr>) =
     \<lparr>outcome = Inl (RetryError (ClientResponseError 503 ''503, Service Unavailable'')
          ''RetryError''), attempts = 3, waits = [4, 4]\<rparr> \<and>
   make_request
      (test_crawler\<lparr>session := Some \<lparr>session_timeout = 5, session_verify_ssl = True,
         session_headers = [(''User-Agent'', ''SanctionsWatch/0.1.0'')]\<rparr>\<rparr>)
      ''https://example.com/test'' (\<lambda>k. ''RetryError'')
      (\<lambda>k. Inl (OtherException ''Timeout'')) =
     \<lparr>outcome = Inl (OtherException ''Timeout''), attempts = 1, waits = []\<rparr> \<and>
   make_request test_crawler ''https://example.com/test'' (\<lambda>k. ''RetryError'')
      (\<lambda>k. Inr \<lparr>status = 200, error_text = []\<rparr>) =
     \<lparr>outcome = Inl (CrawlerError ''Session not initialized. Use async context manager.''),
      attempts = 1, waits = []\<rparr>"
  using
    make_request_retry_policy [of
      "test_crawler\<lparr>session := Some \<lparr>session_timeout = 5, session_verify_ssl = True,
         session_headers = [(''User-Agent'', ''SanctionsWatch/0.1.0'')]\<rparr>\<rparr>"
      "''https://example.com/test''" "\<lambda>k. ''RetryError''"
      "\<lambda>k. if k = 1 then Inl (ClientConnectionError ''Connection reset'')
           else if k = 2 then Inr \<lparr>status = 429, error_text = ''429, Too Many Requests''\<rparr>
           else Inr \<lparr>status = 503, error_text = ''503, Service Unavailable''\<rparr>"]
    make_request_retry_policy [of
      "test_crawler\<lparr>session := Some \<lparr>session_timeout = 5, session_verify_ssl = True,
         session_headers = [(''User-Agent'', ''SanctionsWatch/0.1.0'')]\<rparr>\<rparr>"
      "''https://example.com/test''" "\<lambda>k. ''RetryError''" "\<lambda>k. Inl (OtherException ''Timeout'')"]
    make_request_retry_policy [of test_crawler "''https://example.com/test''" "\<lambda>k. ''RetryError''"
      "\<lambda>k. Inr \<lparr>status = 200, error_text = []\<rparr>"]
  by (simp add: make_request_once_def raise_for_status_def retry_if_exception_type_def
      test_crawler_def)

section \<open>Properties of the post-processing\<close>

lemma dedup_loop_acc: "dedup_loop es seen result = result @ dedup_loop es seen []"
proof (induction es arbitrary: seen result)
  case Nil
  show ?case by simp
next
  case (Cons e es)
  show ?case
  proof (cases "seen (dedup_key e) = None")
    case True
    have "dedup_loop (e # es) seen result = (result @ [e]) @ dedup_loop es (seen(dedup_key e \<mapsto> e)) []"
      using True Cons.IH [of "seen(dedup_key e \<mapsto> e)" "result @ [e]"] by (simp del: fun_upd_apply)
    moreover have "dedup_loop (e # es) seen [] = [e] @ dedup_loop es (seen(dedup_key e \<mapsto> e)) []"
      using True Cons.IH [of "seen(dedup_key e \<mapsto> e)" "[e]"] by (simp del: fun_upd_apply)
    ultimately show ?thesis by simp
  next
    case False
    then show ?thesis using Cons.IH [of seen result] by auto
  qed
qed

lemma dedup_loop_Cons:
  "dedup_loop (e # es) seen [] =
     (if seen (dedup_key e) = None then e # dedup_loop es (seen(dedup_key e \<mapsto> e)) []
      else dedup_loop es seen [])"
  using dedup_loop_acc [of es "seen(dedup_key e \<mapsto> e)" "[e]"] by (simp del: fun_upd_apply)

declare dedup_loop.simps(2) [simp del]

lemma dedup_loop_keys:
  "set (map dedup_key (dedup_loop es seen [])) = dedup_key ` set es - dom seen"
  by (induction es arbitrary: seen) (auto simp: dedup_loop_Cons split: if_splits)

lemma dedup_loop_distinct: "distinct (map dedup_key (dedup_loop es seen []))"
proof (induction es arbitrary: seen)
  case Nil
  show ?case by simp
next
  case (Cons e es)
  have "dedup_key e \<notin> set (map dedup_key (dedup_loop es (seen(dedup_key e \<mapsto> e)) []))"
    unfolding dedup_loop_keys by simp
  with Cons.IH show ?case by (simp add: dedup_loop_Cons del: set_map)
qed

lemma dedup_loop_subseq: "subseq (dedup_loop es seen []) es"
  by (induction es arbitrary: seen) (auto simp: dedup_loop_Cons)

lemma dedup_loop_find:
  "seen k = None \<Longrightarrow>
   find (\<lambda>y. dedup_key y = k) (dedup_loop es seen []) = find (\<lambda>y. dedup_key y = k) es"
proof (induction es arbitrary: seen)
  case Nil
  show ?case by simp
next
  case (Cons e es)
  show ?case
  proof (cases "dedup_key e = k")
    case True
    with Cons.prems show ?thesis by (simp add: dedup_loop_Cons)
  next
    case False
    with Cons.prems have "(seen(dedup_key e \<mapsto> e)) k = None" by simp
    from Cons.IH [of "seen(dedup_key e \<mapsto> e)", OF this] Cons.IH [of seen, OF Cons.prems] False
    show ?thesis by (simp add: dedup_loop_Cons del: fun_upd_apply)
  qed
qed

lemma dedup_loop_fixed:
  "distinct (map dedup_key es) \<Longrightarrow> dedup_key ` set es \<inter> dom seen = {} \<Longrightarrow>
   dedup_loop es seen [] = es"
proof (induction es arbitrary: seen)
  case Nil
  show ?case by simp
next
  case (Cons e es)
  from Cons.prems have n: "seen (dedup_key e) = None" by auto
  from Cons.prems have d: "distinct (map dedup_key es)" by simp
  from Cons.prems have "dedup_key ` set es \<inter> dom (seen(dedup_key e \<mapsto> e)) = {}" by auto
  from Cons.IH [OF d this] n show ?case
    by (simp add: dedup_loop_Cons del: fun_upd_apply)
qed

text \<open>
  C7. With the key \<open>source @ '':'' @ lower(name)\<close> (\<open>dedup_key\<close>), \<open>deduplicate_entities\<close> keeps
  exactly the first occurrence of each key: the keys of its output are pairwise distinct,
  the output is the input with elements dropped and the order kept, and for every key the
  first entity with that key is the same in the output as in the input (so every key of
  the input survives, through its first entity). Running it twice gives what running it
  once gives.
\<close>

theorem deduplicate_first_occurrence_idempotent:
  "distinct (map dedup_key (deduplicate_entities xs)) \<and>
   subseq (deduplicate_entities xs) xs \<and>
   (\<forall>k. find (\<lambda>y. dedup_key y = k) (deduplicate_entities xs) = find (\<lambda>y. dedup_key y = k) xs) \<and>
   deduplicate_entities (deduplicate_entities xs) = deduplicate_entities xs"
  unfolding deduplicate_entities_def
  by (simp add: dedup_loop_distinct dedup_loop_subseq dedup_loop_find dedup_loop_fixed)

lemma lower_JS: "py_lower ''John Smith'' = ''john smith''"
  by code_simp
lemma lower_JS2: "py_lower ''JOHN SMITH'' = ''john smith''"
  by code_simp
lemma lower_JD: "py_lower ''Jane Doe'' = ''jane doe''"
  by code_simp

theorem deduplicate_first_occurrence_idempotent_witness:
  "deduplicate_entities
     [new_entity ''ofac-1'' ''John Smith'' [] PERSON ''ofac'' None,
      new_entity ''ofac-2'' ''Jane Doe'' [] PERSON ''ofac'' None,
      new_entity ''ofac-3'' ''JOHN SMITH'' [] PERSON ''ofac'' None] =
     [new_entity ''ofac-1'' ''John Smith'' [] PERSON ''ofac'' None,
      new_entity ''ofac-2'' ''Jane Doe'' [] PERSON ''ofac'' None] \<and>
   deduplicate_entities (deduplicate_entities
     [new_entity ''ofac-1'' ''John Smith'' [] PERSON ''ofac'' None,
      new_entity ''ofac-2'' ''Jane Doe'' [] PERSON ''ofac'' None,
      new_entity ''ofac-3'' ''JOHN SMITH'' [] PERSON ''ofac'' None]) =
     [new_entity ''ofac-1'' ''John Smith'' [] PERSON ''ofac'' None,
      new_entity ''ofac-2'' ''Jane Doe'' [] PERSON ''ofac'' None]"
proof -
  have k1: "dedup_key (new_entity ''ofac-1'' ''John Smith'' [] PERSON ''ofac'' None) = ''ofac:john smith''"
    by (simp add: dedup_key_def new_entity_def lower_JS)
  have k2: "dedup_key (new_entity ''ofac-2'' ''Jane Doe'' [] PERSON ''ofac'' None) = ''ofac:jane doe''"
    by (simp add: dedup_key_def new_entity_def lower_JD)
  have k3: "dedup_key (new_entity ''ofac-3'' ''JOHN SMITH'' [] PERSON ''ofac'' None) = ''ofac:john smith''"
    by (simp add: dedup_key_def new_entity_def lower_JS2)
  have "deduplicate_entities
     [new_entity ''ofac-1'' ''John Smith'' [] PERSON ''ofac'' None,
      new_entity ''ofac-2'' ''Jane Doe'' [] PERSON ''ofac'' None,
      new_entity ''ofac-3'' ''JOHN SMITH'' [] PERSON ''ofac'' None] =
     [new_entity ''ofac-1'' ''John Smith'' [] PERSON ''ofac'' None,
      new_entity ''ofac-2'' ''Jane Doe'' [] PERSON ''ofac'' None]"
    by (simp add: deduplicate_entities_def dedup_loop_Cons k1 k2 k3)
  with deduplicate_first_occurrence_idempotent
     [of "[new_entity ''ofac-1'' ''John Smith'' [] PERSON ''ofac'' None,
      new_entity ''ofac-2'' ''Jane Doe'' [] PERSON ''ofac'' None,
      new_entity ''ofac-3'' ''JOHN SMITH'' [] PERSON ''ofac'' None]"]
  show ?thesis by simp
qed


lemma py_round2_scores:
  "py_round2 0 = 0" "py_round2 (1 / 5) = 1 / 5" "py_round2 (2 / 5) = 2 / 5"
  "py_round2 (3 / 5) = 3 / 5" "py_round2 (4 / 5) = 4 / 5" "py_round2 1 = 1"
  by code_simp+

lemma enrich_entity_programs:
  "sanctions_programs (enrich_entity e) =
     (if sanctions_programs e = []
      then [\<lparr>program_name = ''Unknown Program'', authority = py_upper (source e),
             program_type = ''general'', description = None, legal_basis = None\<rparr>]
      else sanctions_programs e)"
  by (simp add: enrich_entity_def add_sanction_program_def Let_def)

lemma enrich_entity_score_eq:
  "data_quality_score (enrich_entity e) =
     Some ((if addresses e \<noteq> [] then 4 / 10 else 0) + (if identifiers e \<noteq> [] then 4 / 10 else 0) +
           (if alternative_names e \<noteq> [] then 2 / 10 else 0))"
  by (simp add: enrich_entity_def add_sanction_program_def Let_def py_round2_scores)

lemma enrich_entity_score_round:
  "data_quality_score (enrich_entity e) =
     Some (py_round2 (min ((if addresses e \<noteq> [] then 4 / 10 else 0) +
           (if identifiers e \<noteq> [] then 4 / 10 else 0) +
           (if alternative_names e \<noteq> [] then 2 / 10 else 0)) 1))"
  by (simp add: enrich_entity_def add_sanction_program_def Let_def)

text \<open>
  C8. Enrichment attaches the placeholder programme exactly when the entity has none, and
  sets the score to 0.4 for an address plus 0.4 for an identifier plus 0.2 for an
  alternative name, clamped to 1 and rounded to two decimals, which changes neither; the
  score lies between 0 and 1, for every entity of an enriched list. The arithmetic is
  decimal: each of the six possible sums is a multiple of 1/5, and the float the code
  computes is the one nearest to it.
\<close>

theorem enrich_entity_program_and_score:
  "sanctions_programs (enrich_entity e) =
     (if sanctions_programs e = []
      then [\<lparr>program_name = ''Unknown Program'', authority = py_upper (source e),
             program_type = ''general'', description = None, legal_basis = None\<rparr>]
      else sanctions_programs e) \<and>
   (\<exists>q. data_quality_score (enrich_entity e) = Some q \<and>
      q = py_round2 (min ((if addresses e \<noteq> [] then 4 / 10 else 0) +
            (if identifiers e \<noteq> [] then 4 / 10 else 0) +
            (if alternative_names e \<noteq> [] then 2 / 10 else 0)) 1) \<and>
      q = (if addresses e \<noteq> [] then 4 / 10 else 0) + (if identifiers e \<noteq> [] then 4 / 10 else 0) +
          (if alternative_names e \<noteq> [] then 2 / 10 else 0) \<and>
      0 \<le> q \<and> q \<le> 1) \<and>
   enrich_entities es = map enrich_entity es \<and>
   (\<forall>x \<in> set (enrich_entities es). \<exists>q. data_quality_score x = Some q \<and> 0 \<le> q \<and> q \<le> 1)"
proof (intro conjI)
  show "\<forall>x \<in> set (enrich_entities es). \<exists>q. data_quality_score x = Some q \<and> 0 \<le> q \<and> q \<le> 1"
    by (auto simp: enrich_entities_def enrich_entity_score_eq)
  show "\<exists>q. data_quality_score (enrich_entity e) = Some q \<and>
      q = py_round2 (min ((if addresses e \<noteq> [] then 4 / 10 else 0) +
            (if identifiers e \<noteq> [] then 4 / 10 else 0) +
            (if alternative_names e \<noteq> [] then 2 / 10 else 0)) 1) \<and>
      q = (if addresses e \<noteq> [] then 4 / 10 else 0) + (if identifiers e \<noteq> [] then 4 / 10 else 0) +
          (if alternative_names e \<noteq> [] then 2 / 10 else 0) \<and>
      0 \<le> q \<and> q \<le> 1"
    using enrich_entity_score_eq [of e] enrich_entity_score_round [of e] by auto
qed (simp_all add: enrich_entity_programs enrich_entities_def)

lemma upper_test_source: "py_upper ''test-source'' = ''TEST-SOURCE''"
  by code_simp

theorem enrich_entity_program_and_score_witness:
  "sanctions_programs (enrich_entity (valid_entity\<lparr>alternative_names := [''T. Entity''],
       identifiers := [\<lparr>identifier_type = PASSPORT, id_value = ''P123456'', issuing_country = None\<rparr>]\<rparr>)) =
     [\<lparr>program_name = ''Unknown Program'', authority = ''TEST-SOURCE'',
       program_type = ''general'', description = None, legal_basis = None\<rparr>] \<and>
   data_quality_score (enrich_entity (valid_entity\<lparr>alternative_names := [''T. Entity''],
       identifiers := [\<lparr>identifier_type = PASSPORT, id_value = ''P123456'', issuing_country = None\<rparr>]\<rparr>)) =
     Some (6 / 10) \<and>
   data_quality_score (enrich_entity valid_entity) = Some 0"
  using enrich_entity_program_and_score [of "valid_entity\<lparr>alternative_names := [''T. Entity''],
       identifiers := [\<lparr>identifier_type = PASSPORT, id_value = ''P123456'', issuing_country = None\<rparr>]\<rparr>" "[]"]
    enrich_entity_program_and_score [of valid_entity "[]"]
  by (auto simp: valid_entity_def new_entity_def upper_test_source)

section \<open>Properties of the parsers\<close>

lemma nonblank_iff: "strip s \<noteq> [] \<longleftrightarrow> (\<exists>c\<in>set s. \<not> isspace c)"
  by (simp add: strip_Nil_iff)

lemma dropWhile_keeps: "x \<in> set xs \<Longrightarrow> \<not> P x \<Longrightarrow> x \<in> set (dropWhile P xs)"
  by (induction xs) auto

lemma strip_keeps: "c \<in> set s \<Longrightarrow> \<not> isspace c \<Longrightarrow> c \<in> set (strip s)"
  unfolding strip_def lstrip_def rstrip_def
  by (simp add: dropWhile_keeps)

lemma nonblank_strip: "strip s \<noteq> [] \<Longrightarrow> strip (strip s) \<noteq> []"
  unfolding nonblank_iff by (blast intro: strip_keeps)

lemma nonblank_not_Nil: "strip s \<noteq> [] \<Longrightarrow> s \<noteq> []"
  unfolding nonblank_iff by auto

lemma set_py_join: "p \<in> set ps \<Longrightarrow> set p \<subseteq> set (py_join sep ps)"
  by (induction sep ps rule: py_join.induct) auto

lemma nonblank_join: "p \<in> set ps \<Longrightarrow> strip p \<noteq> [] \<Longrightarrow> strip (py_join sep ps) \<noteq> []"
  unfolding nonblank_iff using set_py_join [of p ps sep] by blast

lemma nonblank_prefixed: "\<not> isspace c \<Longrightarrow> strip (c # s) \<noteq> []"
  unfolding nonblank_iff by auto

lemma get_xml_text_nonblank: "get_xml_text e p = Some s \<Longrightarrow> s \<noteq> [] \<Longrightarrow> strip s \<noteq> []"
  by (auto simp: get_xml_text_def nonblank_strip split: option.splits if_splits)

lemma un_get_xml_text_nonblank: "un_get_xml_text e p = Some s \<Longrightarrow> s \<noteq> [] \<Longrightarrow> strip s \<noteq> []"
  by (auto simp: un_get_xml_text_def get_xml_text_nonblank nonblank_strip split: if_splits)

lemma in_filter_truthy: "x \<in> set (filter_truthy parts) \<longleftrightarrow> Some x \<in> set parts \<and> x \<noteq> []"
  by (induction parts) (auto simp: filter_truthy_def split: option.splits)

lemma strip_Unknown: "strip ''Unknown'' \<noteq> []"
  by (simp add: nonblank_iff isspace_def)

lemma names_head_nonblank: "\<forall>n\<in>set names. strip n \<noteq> [] \<Longrightarrow> strip (names_head names) \<noteq> []"
  by (cases names) (auto simp: names_head_def strip_Unknown)

lemma eu_names_loop_nonblank:
  "\<forall>n\<in>set names. strip n \<noteq> [] \<Longrightarrow> \<forall>n\<in>set (eu_names_loop es names). strip n \<noteq> []"
proof (induction es arbitrary: names)
  case Nil
  then show ?case by simp
next
  case (Cons el es)
  define whole where "whole = get_xml_text el ''wholeName''"
  define names1 where "names1 = (case whole of None \<Rightarrow> names
                    | Some w \<Rightarrow> if w = [] then names else names @ [strip w])"
  define parts where "parts = filter_truthy [get_xml_text el ''firstName'',
      get_xml_text el ''middleName'', get_xml_text el ''lastName'']"
  define names2 where "names2 =
            (if truthy (get_xml_text el ''firstName'') \<or> truthy (get_xml_text el ''middleName'')
                \<or> truthy (get_xml_text el ''lastName'')
             then (let full_name = py_join '' '' parts
                   in if full_name \<noteq> [] \<and> full_name \<notin> set names1
                      then names1 @ [strip full_name] else names1)
             else names1)"
  have n1: "\<forall>n\<in>set names1. strip n \<noteq> []"
    using Cons.prems get_xml_text_nonblank [of el "''wholeName''"]
    by (auto simp: names1_def whole_def nonblank_strip split: option.splits)
  have p: "\<forall>x\<in>set parts. strip x \<noteq> []"
    by (auto simp: parts_def in_filter_truthy dest: get_xml_text_nonblank [OF sym])
  have j: "py_join '' '' parts \<noteq> [] \<Longrightarrow> strip (py_join '' '' parts) \<noteq> []"
  proof -
    assume "py_join '' '' parts \<noteq> []"
    then have "parts \<noteq> []" by auto
    then obtain x where x: "x \<in> set parts" by (cases parts) auto
    with p have "strip x \<noteq> []" by simp
    from nonblank_join [OF x this] show ?thesis .
  qed
  have n2: "\<forall>n\<in>set names2. strip n \<noteq> []"
    using n1 j by (auto simp: names2_def Let_def nonblank_strip)
  have "eu_names_loop (el # es) names = eu_names_loop es names2"
    by (simp add: names2_def names1_def whole_def parts_def Let_def)
  with Cons.IH [OF n2] show ?case by simp
qed

lemma un_alias_loop_nonblank:
  "\<forall>n\<in>set names. strip n \<noteq> [] \<Longrightarrow> \<forall>n\<in>set (un_alias_loop es names). strip n \<noteq> []"
proof (induction es arbitrary: names)
  case Nil
  then show ?case by simp
next
  case (Cons el es)
  define names1 where "names1 =
     (let alias_parts = filter_truthy [un_get_xml_text el ''ALIAS_NAME'', un_get_xml_text el ''QUALITY'']
      in if alias_parts \<noteq> []
             then (let alias_name = strip (py_join '' '' alias_parts)
                   in if alias_name \<noteq> [] \<and> alias_name \<notin> set names
                      then names @ [alias_name] else names)
             else names)"
  have n1: "\<forall>n\<in>set names1. strip n \<noteq> []"
    using Cons.prems by (auto simp: names1_def Let_def nonblank_strip)
  have "un_alias_loop (el # es) names = un_alias_loop es names1"
    by (simp add: names1_def Let_def)
  with Cons.IH [OF n1] show ?case by simp
qed


lemma or_default_nonblank:
  "(\<And>s. x = Some s \<Longrightarrow> s \<noteq> [] \<Longrightarrow> strip s \<noteq> []) \<Longrightarrow> strip d \<noteq> [] \<Longrightarrow>
   strip (or_default x d) \<noteq> []"
  by (auto simp: or_default_def split: option.splits)

lemma eu_helpers_keep:
  "name (eu_extract_sanctions_info x (eu_extract_identifiers x (eu_extract_addresses x ent))) = name ent"
  "entity_id (eu_extract_sanctions_info x (eu_extract_identifiers x (eu_extract_addresses x ent))) = entity_id ent"
  "source (eu_extract_sanctions_info x (eu_extract_identifiers x (eu_extract_addresses x ent))) = source ent"
  by (simp_all add: eu_extract_sanctions_info_def eu_extract_identifiers_def eu_extract_addresses_def)

lemma ofac_helpers_keep:
  "name (ofac_extract_sanctions_info x (ofac_extract_identifiers x (ofac_extract_addresses x ent))) = name ent"
  "entity_id (ofac_extract_sanctions_info x (ofac_extract_identifiers x (ofac_extract_addresses x ent))) = entity_id ent"
  "source (ofac_extract_sanctions_info x (ofac_extract_identifiers x (ofac_extract_addresses x ent))) = source ent"
  by (simp_all add: ofac_extract_sanctions_info_def ofac_extract_identifiers_def ofac_extract_addresses_def)

lemma un_helpers_keep:
  "name (un_extract_sanctions_info x (un_extract_identifiers x (un_extract_addresses x ent))) = name ent"
  "entity_id (un_extract_sanctions_info x (un_extract_identifiers x (un_extract_addresses x ent))) = entity_id ent"
  "source (un_extract_sanctions_info x (un_extract_identifiers x (un_extract_addresses x ent))) = source ent"
  by (simp_all add: un_extract_sanctions_info_def un_extract_identifiers_def un_extract_addresses_def
      split: option.splits)

lemma uk_helpers_keep:
  "name (uk_extract_sanctions_info r (uk_extract_identifiers r (uk_extract_addresses r ent))) = name ent"
  "entity_id (uk_extract_sanctions_info r (uk_extract_identifiers r (uk_extract_addresses r ent))) = entity_id ent"
  "source (uk_extract_sanctions_info r (uk_extract_identifiers r (uk_extract_addresses r ent))) = source ent"
  by (simp_all add: uk_extract_sanctions_info_def uk_extract_identifiers_def uk_extract_addresses_def
      Let_def del: uk_get_all.simps split: sum.splits option.splits)

lemma new_entity_fields:
  "name (new_entity i n alts ty src sid) = n"
  "entity_id (new_entity i n alts ty src sid) = i"
  "source (new_entity i n alts ty src sid) = src"
  by (simp_all add: new_entity_def)

lemma eu_parse_entity_ok:
  "\<exists>e. eu_parse_entity src x = Inr e \<and> strip (name e) \<noteq> [] \<and> prefix ''eu-'' (entity_id e) \<and>
       source e = src"
proof -
  have "\<forall>n\<in>set (eu_extract_names x). strip n \<noteq> []"
    unfolding eu_extract_names_def by (rule eu_names_loop_nonblank) simp
  then have "strip (names_head (eu_extract_names x)) \<noteq> []" by (rule names_head_nonblank)
  then show ?thesis
    by (simp add: eu_parse_entity_def Let_def eu_helpers_keep new_entity_fields)
qed

lemma ofac_parse_entity_ok:
  "\<exists>e. ofac_parse_entity src x = Inr e \<and> strip (name e) \<noteq> [] \<and> prefix ''ofac-'' (entity_id e) \<and>
       source e = src"
proof -
  have a: "strip (or_default (Some (strip t)) ''Unknown'') \<noteq> []" for t
    by (rule or_default_nonblank) (auto simp: nonblank_strip strip_Unknown)
  have b: "strip (or_default (get_xml_text x ''.//title'') ''Unknown'') \<noteq> []"
    by (rule or_default_nonblank) (auto simp: strip_Unknown dest: get_xml_text_nonblank)
  show ?thesis
    by (simp add: ofac_parse_entity_def Let_def ofac_helpers_keep new_entity_fields a b)
qed

lemma un_extract_names_nonblank: "\<forall>n\<in>set (un_extract_names x). strip n \<noteq> []"
proof -
  define parts where "parts = filter_truthy (map (un_get_xml_text x)
              [''FIRST_NAME'', ''SECOND_NAME'', ''THIRD_NAME'', ''FOURTH_NAME'',
               ''NAME_ORIGINAL_SCRIPT'', ''ENTITY_NAME''])"
  define names0 where "names0 =
            (if parts \<noteq> []
             then (let full_name = strip (py_join '' '' parts)
                   in if full_name \<noteq> [] then [full_name] else [])
             else [])"
  have "\<forall>n\<in>set names0. strip n \<noteq> []"
    by (simp add: names0_def Let_def nonblank_strip)
  then have "\<forall>n\<in>set (un_alias_loop (un_alias_elems x) names0). strip n \<noteq> []"
    by (rule un_alias_loop_nonblank)
  moreover have "un_extract_names x = un_alias_loop (un_alias_elems x) names0"
    by (simp only: un_extract_names_def Let_def names0_def parts_def)
  ultimately show ?thesis by simp
qed

lemma un_parse_entity_ok:
  "\<exists>e. un_parse_entity src x = Inr e \<and> strip (name e) \<noteq> [] \<and> prefix ''un-'' (entity_id e) \<and>
       source e = src"
proof -
  define j where "j = strip (py_join '' '' (filter_truthy (map (un_get_xml_text x)
                       [''FIRST_NAME'', ''SECOND_NAME'', ''THIRD_NAME'', ''FOURTH_NAME''])))"
  define names where "names =
     (if un_extract_names x = [] then filter (\<lambda>n. n \<noteq> []) [j] else un_extract_names x)"
  define i where "i = or_default (py_or (et_get x ''dataid'')
              (py_or (un_get_xml_text x ''@dataid'') (un_get_xml_text x ''REFERENCE_NUMBER'')))
              ''unknown''"
  have "strip j \<noteq> [] \<or> j = []"
    using nonblank_strip by (auto simp: j_def)
  with un_extract_names_nonblank [of x] have "\<forall>n\<in>set names. strip n \<noteq> []"
    by (auto simp: names_def)
  then have h: "strip (names_head names) \<noteq> []" by (rule names_head_nonblank)
  have "un_parse_entity src x =
      Inr (un_extract_sanctions_info x (un_extract_identifiers x (un_extract_addresses x
        (new_entity (''un-'' @ i) (names_head names) (names_tail names)
           (un_determine_entity_type x) src (Some i)))))"
    by (simp only: un_parse_entity_def Let_def names_def j_def i_def)
  with h show ?thesis
    by (simp add: un_helpers_keep new_entity_fields)
qed

lemma uk_get_all_stripped:
  "uk_get_all row ks = Inr vs \<Longrightarrow> \<forall>v\<in>set vs. v \<noteq> [] \<longrightarrow> strip v \<noteq> []"
proof (induction ks arbitrary: vs)
  case Nil
  then show ?case by simp
next
  case (Cons k ks)
  then show ?case
    by (auto simp: uk_get_strip_def nonblank_strip split: sum.splits option.splits)
qed

lemma uk_parse_entity_ok:
  "uk_parse_entity src row = Inr e \<Longrightarrow>
     strip (name e) \<noteq> [] \<and> prefix ''uk-'' (entity_id e) \<and> source e = src"
proof -
  assume a: "uk_parse_entity src row = Inr e"
  then obtain i nf ty where
    nf: "uk_get_all row [''Name1'', ''Name2'', ''Name3'', ''Name4'', ''Name5'', ''Name6''] = Inr nf"
    and e: "e = uk_extract_sanctions_info row (uk_extract_identifiers row
                          (uk_extract_addresses row
                            (new_entity (''uk-'' @ i) (names_head (filter (\<lambda>n. n \<noteq> []) nf))
                               (names_tail (filter (\<lambda>n. n \<noteq> []) nf)) ty src (Some i))))"
    by (auto simp: uk_parse_entity_def uk_parse_body_def Let_def simp del: uk_get_all.simps
        split: sum.splits)
  from uk_get_all_stripped [OF nf] have "\<forall>n\<in>set (filter (\<lambda>n. n \<noteq> []) nf). strip n \<noteq> []"
    by simp
  then have "strip (names_head (filter (\<lambda>n. n \<noteq> []) nf)) \<noteq> []" by (rule names_head_nonblank)
  then show ?thesis
    by (simp add: e uk_helpers_keep new_entity_fields)
qed

lemma prefixed_id_nonblank:
  "prefix ''eu-'' i \<or> prefix ''ofac-'' i \<or> prefix ''un-'' i \<or> prefix ''uk-'' i \<Longrightarrow> strip i \<noteq> []"
  by (auto simp: prefix_def nonblank_iff isspace_def)

lemma parsed_fields_ok:
  "strip (name e) \<noteq> [] \<Longrightarrow> strip (entity_id e) \<noteq> [] \<Longrightarrow> source e = src \<Longrightarrow>
   name e \<noteq> [] \<and> strip (name e) \<noteq> [] \<and> entity_id e \<noteq> [] \<and>
   (src \<noteq> [] \<longrightarrow> validate_entity e = Inr True)"
  by (auto simp: validate_entity_total dest: nonblank_not_Nil)

text \<open>
  C10. Whatever the raw record holds, an entity a parser returns has a name that is not
  empty, and not blank, and an id that is not empty and begins with the parser's prefix:
  the three XML parsers always return one, the CSV parser returns one unless a column
  it reads holds no value. So with a source that is not empty the validator accepts every
  parsed entity: a raw record without a name or without an id is never rejected for
  that.
\<close>

theorem parsed_entity_has_name_and_id:
  "(\<exists>e. eu_parse_entity src x = Inr e \<and> name e \<noteq> [] \<and> strip (name e) \<noteq> [] \<and>
        entity_id e \<noteq> [] \<and> prefix ''eu-'' (entity_id e) \<and>
        (src \<noteq> [] \<longrightarrow> validate_entity e = Inr True)) \<and>
   (\<exists>e. ofac_parse_entity src x = Inr e \<and> name e \<noteq> [] \<and> strip (name e) \<noteq> [] \<and>
        entity_id e \<noteq> [] \<and> prefix ''ofac-'' (entity_id e) \<and>
        (src \<noteq> [] \<longrightarrow> validate_entity e = Inr True)) \<and>
   (\<exists>e. un_parse_entity src x = Inr e \<and> name e \<noteq> [] \<and> strip (name e) \<noteq> [] \<and>
        entity_id e \<noteq> [] \<and> prefix ''un-'' (entity_id e) \<and>
        (src \<noteq> [] \<longrightarrow> validate_entity e = Inr True)) \<and>
   (\<forall>e. uk_parse_entity src row = Inr e \<longrightarrow> name e \<noteq> [] \<and> strip (name e) \<noteq> [] \<and>
        entity_id e \<noteq> [] \<and> prefix ''uk-'' (entity_id e) \<and>
        (src \<noteq> [] \<longrightarrow> validate_entity e = Inr True))"
proof (intro conjI)
  from eu_parse_entity_ok [of src x] obtain e where
    e: "eu_parse_entity src x = Inr e" "strip (name e) \<noteq> []" "prefix ''eu-'' (entity_id e)"
       "source e = src" by blast
  from e(3) have "strip (entity_id e) \<noteq> []" by (simp add: prefixed_id_nonblank)
  from parsed_fields_ok [OF e(2) this e(4)] e(1) e(3)
  show "\<exists>e. eu_parse_entity src x = Inr e \<and> name e \<noteq> [] \<and> strip (name e) \<noteq> [] \<and>
        entity_id e \<noteq> [] \<and> prefix ''eu-'' (entity_id e) \<and>
        (src \<noteq> [] \<longrightarrow> validate_entity e = Inr True)"
    by blast
next
  from ofac_parse_entity_ok [of src x] obtain e where
    e: "ofac_parse_entity src x = Inr e" "strip (name e) \<noteq> []" "prefix ''ofac-'' (entity_id e)"
       "source e = src" by blast
  from e(3) have "strip (entity_id e) \<noteq> []" by (simp add: prefixed_id_nonblank)
  from parsed_fields_ok [OF e(2) this e(4)] e(1) e(3)
  show "\<exists>e. ofac_parse_entity src x = Inr e \<and> name e \<noteq> [] \<and> strip (name e) \<noteq> [] \<and>
        entity_id e \<noteq> [] \<and> prefix ''ofac-'' (entity_id e) \<and>
        (src \<noteq> [] \<longrightarrow> validate_entity e = Inr True)"
    by blast
next
  from un_parse_entity_ok [of src x] obtain e where
    e: "un_parse_entity src x = Inr e" "strip (name e) \<noteq> []" "prefix ''un-'' (entity_id e)"
       "source e = src" by blast
  from e(3) have "strip (entity_id e) \<noteq> []" by (simp add: prefixed_id_nonblank)
  from parsed_fields_ok [OF e(2) this e(4)] e(1) e(3)
  show "\<exists>e. un_parse_entity src x = Inr e \<and> name e \<noteq> [] \<and> strip (name e) \<noteq> [] \<and>
        entity_id e \<noteq> [] \<and> prefix ''un-'' (entity_id e) \<and>
        (src \<noteq> [] \<longrightarrow> validate_entity e = Inr True)"
    by blast
next
  show "\<forall>e. uk_parse_entity src row = Inr e \<longrightarrow> name e \<noteq> [] \<and> strip (name e) \<noteq> [] \<and>
        entity_id e \<noteq> [] \<and> prefix ''uk-'' (entity_id e) \<and>
        (src \<noteq> [] \<longrightarrow> validate_entity e = Inr True)"
  proof (intro allI impI)
    fix e
    assume "uk_parse_entity src row = Inr e"
    from uk_parse_entity_ok [OF this]
    have k: "strip (name e) \<noteq> []" "prefix ''uk-'' (entity_id e)" "source e = src" by simp_all
    from k(2) have "strip (entity_id e) \<noteq> []" by (simp add: prefixed_id_nonblank)
    from parsed_fields_ok [OF k(1) this k(3)] k(2)
    show "name e \<noteq> [] \<and> strip (name e) \<noteq> [] \<and>
        entity_id e \<noteq> [] \<and> prefix ''uk-'' (entity_id e) \<and>
        (src \<noteq> [] \<longrightarrow> validate_entity e = Inr True)"
      by blast
  qed
qed

section \<open>Properties of the date parsers\<close>

text \<open>
  C9. Each of the four date parsers turns the string \<^verbatim>\<open>2019\<close> into the first of January
  2019: no earlier format of its list matches, and the year-only format does.
\<close>

theorem parse_date_year_only:
  "eu_parse_date ''2019'' = Some \<lparr>dt_year = 2019, dt_month = 1, dt_day = 1\<rparr> \<and>
   ofac_parse_date ''2019'' = Some \<lparr>dt_year = 2019, dt_month = 1, dt_day = 1\<rparr> \<and>
   un_parse_date ''2019'' = Some \<lparr>dt_year = 2019, dt_month = 1, dt_day = 1\<rparr> \<and>
   uk_parse_date ''2019'' = Some \<lparr>dt_year = 2019, dt_month = 1, dt_day = 1\<rparr>"
  by code_simp

theorem parse_date_year_only_witness:
  "map_option dt_year (uk_parse_date ''2019'') = Some 2019 \<and>
   map_option dt_month (uk_parse_date ''2019'') = Some 1 \<and>
   map_option dt_day (uk_parse_date ''2019'') = Some 1"
  using parse_date_year_only by simp

lemma parse_empty_records:
  "eu_parse_entity ''eu-sanctions'' (Element ''sanctionEntity'' [] None []) =
     Inr (new_entity ''eu-None'' ''Unknown'' [] UNKNOWN ''eu-sanctions'' None)"
  "ofac_parse_entity ''ofac'' (Element ''sdnEntry'' [] None []) =
     Inr (new_entity ''ofac-unknown'' ''Unknown'' [] UNKNOWN ''ofac'' (Some ''unknown''))"
  "un_parse_entity ''un-sanctions'' (Element ''ROW'' [] None []) =
     Inr (new_entity ''un-unknown'' ''Unknown'' [] UNKNOWN ''un-sanctions'' (Some ''unknown''))"
  "uk_parse_entity ''uk-treasury'' Map.empty =
     Inr (new_entity ''uk-'' ''Unknown'' [] UNKNOWN ''uk-treasury'' (Some []))"
  by code_simp+

theorem parsed_entity_has_name_and_id_witness:
  "validate_entity (new_entity ''eu-None'' ''Unknown'' [] UNKNOWN ''eu-sanctions'' None) = Inr True \<and>
   validate_entity (new_entity ''ofac-unknown'' ''Unknown'' [] UNKNOWN ''ofac'' (Some ''unknown''))
     = Inr True \<and>
   validate_entity (new_entity ''un-unknown'' ''Unknown'' [] UNKNOWN ''un-sanctions''
     (Some ''unknown'')) = Inr True \<and>
   validate_entity (new_entity ''uk-'' ''Unknown'' [] UNKNOWN ''uk-treasury'' (Some [])) = Inr True"
proof (intro conjI)
  show "validate_entity (new_entity ''eu-None'' ''Unknown'' [] UNKNOWN ''eu-sanctions'' None) = Inr True"
    using parsed_entity_has_name_and_id
      [of "''eu-sanctions''" "Element ''sanctionEntity'' [] None []" Map.empty, THEN conjunct1]
    by (simp add: parse_empty_records(1))
  show "validate_entity (new_entity ''ofac-unknown'' ''Unknown'' [] UNKNOWN ''ofac'' (Some ''unknown''))
     = Inr True"
    using parsed_entity_has_name_and_id
      [of "''ofac''" "Element ''sdnEntry'' [] None []" Map.empty, THEN conjunct2, THEN conjunct1]
    by (simp add: parse_empty_records(2))
  show "validate_entity (new_entity ''un-unknown'' ''Unknown'' [] UNKNOWN ''un-sanctions''
     (Some ''unknown'')) = Inr True"
    using parsed_entity_has_name_and_id
      [of "''un-sanctions''" "Element ''ROW'' [] None []" Map.empty,
       THEN conjunct2, THEN conjunct2, THEN conjunct1]
    by (simp add: parse_empty_records(3))
  show "validate_entity (new_entity ''uk-'' ''Unknown'' [] UNKNOWN ''uk-treasury'' (Some [])) = Inr True"
    using parsed_entity_has_name_and_id
      [of "''uk-treasury''" "Element ''ROW'' [] None []" Map.empty,
       THEN conjunct2, THEN conjunct2, THEN conjunct2]
    by (simp add: parse_empty_records(4))
qed

end
